theory Spec2Isabelle
  imports Main
begin

section \<open>Data model\<close>

text \<open>
  The engine is the class \<open>TreeSitterTree\<close> of
  \<open>vs/editor/browser/services/treeSitterServices/treeSitterTree.ts\<close>.
  JavaScript numbers that hold offsets, lines and columns are integers here.
\<close>

text \<open>\<open>Position\<close> and \<open>Range\<close> of the editor: one-based line and column.\<close>

record Position =
  lineNumber :: int
  column :: int

record Range =
  startLineNumber :: int
  startColumn :: int
  endLineNumber :: int
  endColumn :: int

text \<open>\<open>Parser.Point\<close> and \<open>Parser.Edit\<close> of web-tree-sitter: zero-based row and column.\<close>

record Point =
  row :: int
  pt_column :: int

record Edit =
  startPosition :: Point
  oldEndPosition :: Point
  newEndPosition :: Point
  startIndex :: int
  oldEndIndex :: int
  newEndIndex :: int

text \<open>One entry of \<open>IModelContentChangedEvent.changes\<close>.\<close>

record IModelContentChange =
  ch_range :: Range
  rangeOffset :: int
  rangeLength :: int
  ch_text :: string

section \<open>The document collaborator\<close>

text \<open>
  A text model is represented by its content; a mutation of the live document replaces
  the content held in the engine's state.
\<close>

type_synonym ITextModel = string

text \<open>
  Modelled from the spec: \<open>ITextModel.getPositionAt\<close> is not in these sources. The
  document collaborator of section 6 exposes \<open>positionAt(offset) -> {row, column}\<close>;
  here the offset is clamped to the content, lines are separated by the line feed
  character and the result is one-based, as \<open>Position\<close> is.
\<close>

fun positionFrom :: "int \<Rightarrow> int \<Rightarrow> string \<Rightarrow> nat \<Rightarrow> Position" where
  "positionFrom l c xs 0 = \<lparr>lineNumber = l, column = c\<rparr>"
| "positionFrom l c [] (Suc n) = \<lparr>lineNumber = l, column = c\<rparr>"
| "positionFrom l c (x # xs) (Suc n) =
     (if x = CHR 0x0A then positionFrom (l + 1) 1 xs n else positionFrom l (c + 1) xs n)"

definition getPositionAt :: "ITextModel \<Rightarrow> int \<Rightarrow> Position" where
  "getPositionAt m offset = positionFrom 1 1 m (nat offset)"

text \<open>
  Modelled from the spec: \<open>ITextModel.getOffsetAt\<close> and \<open>getValueInRange\<close> are not in
  these sources. The document collaborator of section 6 exposes
  \<open>valueInRange(range) -> string\<close>: the content between the offsets of the two ends
  of the range. A position past the end of its line counts as the end of that line.
\<close>

fun offsetFrom :: "int \<Rightarrow> int \<Rightarrow> string \<Rightarrow> Position \<Rightarrow> nat \<Rightarrow> nat" where
  "offsetFrom l c [] p acc = acc"
| "offsetFrom l c (x # xs) p acc =
     (if lineNumber p < l \<or> (lineNumber p = l \<and> column p \<le> c) then acc
      else if x = CHR 0x0A then
        (if lineNumber p = l then acc else offsetFrom (l + 1) 1 xs p (Suc acc))
      else offsetFrom l (c + 1) xs p (Suc acc))"

definition getOffsetAt :: "ITextModel \<Rightarrow> Position \<Rightarrow> nat" where
  "getOffsetAt m p = offsetFrom 1 1 m p 0"

definition getValueInRange :: "ITextModel \<Rightarrow> Range \<Rightarrow> string" where
  "getValueInRange m r =
     (let a = getOffsetAt m \<lparr>lineNumber = startLineNumber r, column = startColumn r\<rparr>;
          b = getOffsetAt m \<lparr>lineNumber = endLineNumber r, column = endColumn r\<rparr>
      in take (b - a) (drop a m))"

text \<open>
  Modelled from the spec: \<open>Range.fromPositions\<close> is not in these sources. The range
  handed to \<open>valueInRange(range)\<close> of section 6 runs from the earlier of the two
  positions to the later.
\<close>

definition fromPositions :: "Position \<Rightarrow> Position \<Rightarrow> Range" where
  "fromPositions a b =
     (if lineNumber a > lineNumber b \<or> (lineNumber a = lineNumber b \<and> column a > column b)
      then \<lparr>startLineNumber = lineNumber b, startColumn = column b,
            endLineNumber = lineNumber a, endColumn = column a\<rparr>
      else \<lparr>startLineNumber = lineNumber a, startColumn = column a,
            endLineNumber = lineNumber b, endColumn = column b\<rparr>)"

text \<open>
  Modelled from the spec: \<open>createTextModel\<close>, \<open>setValue\<close> and \<open>createSnapshot\<close>
  are not in these sources. Section 6 has \<open>createSnapshot() -> content\<close> for frozen
  copies, and section 3 calls the snapshot an immutable copy of the document content:
  \<open>createSnapshot\<close> gives the content of a model, \<open>createTextModel\<close> a fresh model
  with the given content, and \<open>setValue\<close> replaces the content of a model.
\<close>

definition createTextModel :: "string \<Rightarrow> ITextModel" where
  "createTextModel v = v"

definition createSnapshot :: "ITextModel \<Rightarrow> string" where
  "createSnapshot m = m"

definition setValue :: "ITextModel \<Rightarrow> string \<Rightarrow> ITextModel" where
  "setValue m v = v"

section \<open>The text-retrieval callback\<close>

text \<open>
  \<open>_retrieveTextAtPosition(model, startIndex, _startPoint, endIndex)\<close>, lines 166-174.
  An \<open>endIndex\<close> that is not a number is \<open>None\<close>.
\<close>

definition retrieveTextAtPosition ::
  "ITextModel \<Rightarrow> int \<Rightarrow> Point option \<Rightarrow> int option \<Rightarrow> string" where
  "retrieveTextAtPosition m startIdx startPoint endIdx =
     (let startPos = getPositionAt m startIdx;
          endIdx' = (case endIdx of None \<Rightarrow> startIdx + 5000 | Some e \<Rightarrow> e);
          endPos = getPositionAt m endIdx'
      in getValueInRange m (fromPositions startPos endPos))"

section \<open>Promises, jobs and the state of the engine\<close>

text \<open>
  Trees and promises are objects: a tree is identified by the number the parser gave it
  when it returned it, a promise by the number it got when it was created.
\<close>

datatype val = VUndefined | VTree nat | VNumber int | VPromise nat

datatype parse_error = TimeBudgetExceeded | StructuralParseFailure

datatype outcome = Completes | Raises parse_error

text \<open>The two places that call \<open>this._parser.parse\<close>: line 104 and line 144.\<close>

datatype origin = TryParseSync | ParseAsync

record parse_request =
  timeout :: int
  reader_model :: ITextModel
  oldTree :: "nat option"

text \<open>
  The calls the engine makes on the objects of web-tree-sitter, in the order it makes
  them: \<open>tree.edit(edit)\<close> on a tree, and \<open>parser.parse(reader, tree)\<close> with the time
  budget in effect, the model its reader is bound to, the baseline tree and the result.
\<close>

datatype ext_call =
    TreeEdit nat Edit
  | ParserParse origin parse_request "parse_error + nat"

text \<open>
  The continuations the engine registers on promises, one per place of the source:
  \<^item> \<open>K_parseTree q a\<close>: the rest of \<open>_parseTree(a)\<close> after its \<open>await\<close> (lines 71-92),
    \<open>q\<close> the promise the call returned;
  \<^item> \<open>K_then75 m a\<close>: the callback of lines 75-84 on operation \<open>m\<close>;
  \<^item> \<open>K_then62 d\<close>: the callback of lines 62-64, \<open>d\<close> the promise \<open>then\<close> returned;
  \<^item> \<open>K_then118 n\<close>: the callback of lines 118-121, \<open>n\<close> the promise of line 117;
  \<^item> \<open>K_then156 a\<close>: the callback of lines 156-158, \<open>a\<close> the promise of line 138;
  \<^item> \<open>K_then31\<close>: the constructor's callback of lines 31-35;
  \<^item> \<open>K_resolve p\<close>: the resolving function of promise \<open>p\<close>, which a promise that was
    resolved with another promise registers on that promise.
  The promise a \<open>then\<close> returns is left out where the source drops it (lines 31, 75, 118
  and 156, and the promise of the callback of line 140): nothing reads it.
\<close>

datatype reaction =
    K_parseTree nat bool
  | K_then75 nat bool
  | K_then62 nat
  | K_then118 nat
  | K_then156 nat
  | K_then31
  | K_resolve nat

datatype pstate = Pending "reaction list" | Fulfilled val

datatype job = ReactionJob reaction val | ResolveThenableJob nat nat

text \<open>
  Modelled from the spec: \<open>runWhenIdle\<close> is not in these sources. The idle scheduling
  collaborator of section 6 accepts a callback and invokes it later with a "time
  remaining" query: the callbacks wait in a queue, and an idle slice of the host runs
  the oldest with the time that remains. A callback handed to \<open>runWhenIdle\<close>
  (line 139) is represented by what its closure holds.
\<close>

record idle_callback =
  cb_textModel :: ITextModel
  cb_tree :: "nat option"
  cb_promise :: nat

text \<open>
  The fields of \<open>TreeSitterTree\<close> (\<open>model\<close> to \<open>currentParseOperation\<close>), the time
  budget of its parser, and the host: the promises, the microtask queue, the idle
  callbacks waiting for a slice, the calls made so far on parser and trees, and the
  promises handed to outside callers, in call order. \<open>dispose\<close> and the disposable
  store are left out.
\<close>

record state =
  model :: ITextModel
  tree :: "nat option"
  edits :: "Edit list"
  nCallsParseTree :: int
  currentParseOperation :: "nat option"
  timeoutMicros :: int
  nextTree :: nat
  nParses :: nat
  trace :: "ext_call list"
  promises :: "nat \<Rightarrow> pstate"
  nextPromise :: nat
  microtasks :: "job list"
  idleQueue :: "idle_callback list"
  callers :: "nat list"

text \<open>
  The incremental parser is a black box. Whether a call completes is decided by the
  parser: it is given the number of calls made before this one, the time budget in
  effect (0: none), the reader and the baseline tree.
\<close>

type_synonym parser =
  "nat \<Rightarrow> int \<Rightarrow> (int \<Rightarrow> Point option \<Rightarrow> int option \<Rightarrow> string) \<Rightarrow> nat option \<Rightarrow> outcome"

subsection \<open>Promise operations\<close>

text \<open>
  Promises behave as ECMAScript specifies. The promise of an \<open>async\<close> function is
  created when the function is called and resolved with what the function returns; no
  promise of the engine is ever rejected, since the only exceptions are those of
  \<open>parser.parse\<close>, which lines 113 and 155 catch.
\<close>

definition newPromise :: "state \<Rightarrow> nat \<times> state" where
  "newPromise s =
     (nextPromise s,
      s\<lparr>promises := (promises s)(nextPromise s := Pending []),
        nextPromise := Suc (nextPromise s)\<rparr>)"

definition enqueue :: "job \<Rightarrow> state \<Rightarrow> state" where
  "enqueue j s = s\<lparr>microtasks := microtasks s @ [j]\<rparr>"

text \<open>Fulfilling a promise queues one job per reaction registered on it.\<close>

definition fulfill :: "nat \<Rightarrow> val \<Rightarrow> state \<Rightarrow> state" where
  "fulfill p v s =
     (case promises s p of
        Pending rs \<Rightarrow>
          s\<lparr>promises := (promises s)(p := Fulfilled v),
            microtasks := microtasks s @ map (\<lambda>r. ReactionJob r v) rs\<rparr>
      | Fulfilled w \<Rightarrow> s)"

text \<open>
  Resolving with a promise queues the job that will call that promise's \<open>then\<close>;
  resolving with any other value fulfils.
\<close>

definition resolve :: "nat \<Rightarrow> val \<Rightarrow> state \<Rightarrow> state" where
  "resolve p v s =
     (case v of
        VPromise q \<Rightarrow> enqueue (ResolveThenableJob p q) s
      | _ \<Rightarrow> fulfill p v s)"

text \<open>\<open>q.then(r)\<close>: registered while \<open>q\<close> is pending, queued at once when it is fulfilled.\<close>

definition then_promise :: "nat \<Rightarrow> reaction \<Rightarrow> state \<Rightarrow> state" where
  "then_promise q r s =
     (case promises s q of
        Pending rs \<Rightarrow> s\<lparr>promises := (promises s)(q := Pending (rs @ [r]))\<rparr>
      | Fulfilled v \<Rightarrow> enqueue (ReactionJob r v) s)"

text \<open>\<open>await v\<close>: on a promise, its \<open>then\<close>; on any other value, the continuation is queued.\<close>

definition await :: "val \<Rightarrow> reaction \<Rightarrow> state \<Rightarrow> state" where
  "await v k s =
     (case v of
        VPromise q \<Rightarrow> then_promise q k s
      | _ \<Rightarrow> enqueue (ReactionJob k v) s)"

section \<open>The engine\<close>

subsection \<open>registerTreeEdits, lines 41-53\<close>

definition mk_edit :: "ITextModel \<Rightarrow> IModelContentChange \<Rightarrow> Edit" where
  "mk_edit m change =
     (let newEndPositionFromModel =
            getPositionAt m (rangeOffset change + int (length (ch_text change)))
      in \<lparr>startPosition =
            \<lparr>row = startLineNumber (ch_range change) - 1,
             pt_column = startColumn (ch_range change) - 1\<rparr>,
          oldEndPosition =
            \<lparr>row = endLineNumber (ch_range change) - 1,
             pt_column = endColumn (ch_range change) - 1\<rparr>,
          newEndPosition =
            \<lparr>row = lineNumber newEndPositionFromModel - 1,
             pt_column = column newEndPositionFromModel - 1\<rparr>,
          startIndex = rangeOffset change,
          oldEndIndex = rangeOffset change + rangeLength change,
          newEndIndex = rangeOffset change + int (length (ch_text change))\<rparr>)"

fun registerTreeEdits :: "IModelContentChange list \<Rightarrow> state \<Rightarrow> state" where
  "registerTreeEdits [] s = s"
| "registerTreeEdits (change # changes) s =
     registerTreeEdits changes (s\<lparr>edits := edits s @ [mk_edit (model s) change]\<rparr>)"

subsection \<open>updateAndGetTree, lines 126-135\<close>

fun edit_all :: "nat \<Rightarrow> Edit list \<Rightarrow> state \<Rightarrow> state" where
  "edit_all t [] s = s"
| "edit_all t (e # es) s = edit_all t es (s\<lparr>trace := trace s @ [TreeEdit t e]\<rparr>)"

definition updateAndGetTree :: "state \<Rightarrow> nat option \<times> state" where
  "updateAndGetTree s =
     (case tree s of
        None \<Rightarrow> (None, s)
      | Some t \<Rightarrow> (Some t, (edit_all t (edits s) s)\<lparr>edits := []\<rparr>))"

subsection \<open>The parser\<close>

definition setTimeoutMicros :: "int \<Rightarrow> state \<Rightarrow> state" where
  "setTimeoutMicros n s = s\<lparr>timeoutMicros := n\<rparr>"

text \<open>
  \<open>this._parser.parse(reader, tree)\<close> with the reader bound to model \<open>m\<close>: a new tree,
  or the exception the parser raises.
\<close>

definition parser_parse ::
  "parser \<Rightarrow> origin \<Rightarrow> ITextModel \<Rightarrow> nat option \<Rightarrow> state \<Rightarrow> (parse_error + nat) \<times> state" where
  "parser_parse P og m t s =
     (let req = \<lparr>timeout = timeoutMicros s, reader_model = m, oldTree = t\<rparr> in
      case P (nParses s) (timeoutMicros s)
             (\<lambda>startIdx startPoint endIdx. retrieveTextAtPosition m startIdx startPoint endIdx) t of
        Completes \<Rightarrow>
          (Inr (nextTree s),
           s\<lparr>nextTree := Suc (nextTree s), nParses := Suc (nParses s),
             trace := trace s @ [ParserParse og req (Inr (nextTree s))]\<rparr>)
      | Raises e \<Rightarrow>
          (Inl e,
           s\<lparr>nParses := Suc (nParses s),
             trace := trace s @ [ParserParse og req (Inl e)]\<rparr>))"

subsection \<open>_parseAsync, lines 137-164\<close>

text \<open>
  The call creates the promise and hands the callback to \<open>runWhenIdle\<close>; the callback
  runs in \<open>idle_slice\<close> when the host grants a slice.
\<close>

definition parseAsync :: "ITextModel \<Rightarrow> nat option \<Rightarrow> state \<Rightarrow> nat \<times> state" where
  "parseAsync textModel t s =
     (case newPromise s of
        (a, s1) \<Rightarrow>
          (a, s1\<lparr>idleQueue := idleQueue s1 @
                 [\<lparr>cb_textModel = textModel, cb_tree = t, cb_promise = a\<rparr>]\<rparr>))"

text \<open>The callback of lines 140-160, run with \<open>arg.timeRemaining() = remaining\<close>.\<close>

definition idle_slice :: "parser \<Rightarrow> int \<Rightarrow> idle_callback \<Rightarrow> state \<Rightarrow> state" where
  "idle_slice P remaining cb s =
     (case parser_parse P ParseAsync (cb_textModel cb) (cb_tree cb)
             (setTimeoutMicros (remaining * 1000) s) of
        (Inr result, s1) \<Rightarrow> resolve (cb_promise cb) (VTree result) (s1\<lparr>tree := Some result\<rparr>)
      | (Inl err, s1) \<Rightarrow>
          (case parseAsync (cb_textModel cb) (cb_tree cb) s1 of
             (a, s2) \<Rightarrow> then_promise a (K_then156 (cb_promise cb)) s2))"

subsection \<open>_tryParseSync, lines 95-124\<close>

text \<open>
  The function has no \<open>await\<close>: it runs to its end within the job that calls it. Its
  promise \<open>m\<close> is resolved with the tree when the parser completes, and with the
  promise of line 117 when the parser raises.
\<close>

definition tryParseSync :: "parser \<Rightarrow> bool \<Rightarrow> state \<Rightarrow> nat \<times> state" where
  "tryParseSync P asynchronous s =
     (case newPromise s of
        (m, s0) \<Rightarrow>
          (case updateAndGetTree (if asynchronous then setTimeoutMicros 10000 s0 else s0) of
             (t, s1) \<Rightarrow>
               (case parser_parse P TryParseSync (model s1) t s1 of
                  (Inr result, s2) \<Rightarrow> (m, resolve m (VTree result) (s2\<lparr>tree := Some result\<rparr>))
                | (Inl err, s2) \<Rightarrow>
                    (let textModel = setValue (createTextModel []) (createSnapshot (model s2)) in
                     case newPromise s2 of
                       (n, s3) \<Rightarrow>
                         (case parseAsync textModel t s3 of
                            (a, s4) \<Rightarrow>
                              (m, resolve m (VPromise n) (then_promise a (K_then118 n) s4)))))))"

subsection \<open>_parseTree, lines 69-93\<close>

definition op_val :: "nat option \<Rightarrow> val" where
  "op_val c = (case c of None \<Rightarrow> VUndefined | Some m \<Rightarrow> VPromise m)"

text \<open>The call runs up to the \<open>await\<close> of line 70.\<close>

definition parseTree_priv :: "bool \<Rightarrow> state \<Rightarrow> nat \<times> state" where
  "parseTree_priv asynchronous s =
     (case newPromise s of
        (q, s1) \<Rightarrow> (q, await (op_val (currentParseOperation s1)) (K_parseTree q asynchronous) s1))"

text \<open>Lines 71-92, run when the awaited value arrives.\<close>

definition parseTree_resume :: "parser \<Rightarrow> nat \<Rightarrow> bool \<Rightarrow> state \<Rightarrow> state" where
  "parseTree_resume P q asynchronous s =
     (if tree s = None \<or> edits s \<noteq> [] then
        (case tryParseSync P asynchronous s of
           (myParseOperation, s1) \<Rightarrow>
             (let s2 = s1\<lparr>currentParseOperation := Some myParseOperation\<rparr>;
                  s3 = then_promise myParseOperation (K_then75 myParseOperation asynchronous) s2;
                  s4 = s3\<lparr>nCallsParseTree := nCallsParseTree s3 + 1\<rparr>
              in resolve q (op_val (currentParseOperation s4)) s4))
      else
        (let s1 = s\<lparr>nCallsParseTree := nCallsParseTree s + 1\<rparr>
         in resolve q (case tree s1 of None \<Rightarrow> VUndefined | Some t \<Rightarrow> VTree t) s1))"

text \<open>The callback of lines 75-84.\<close>

definition then75 :: "nat \<Rightarrow> bool \<Rightarrow> state \<Rightarrow> state" where
  "then75 myParseOperation asynchronous s =
     (let s1 = (if currentParseOperation s = Some myParseOperation
                then s\<lparr>currentParseOperation := None\<rparr> else s)
      in if edits s1 \<noteq> [] then snd (parseTree_priv asynchronous s1)
         else s1\<lparr>nCallsParseTree := nCallsParseTree s1 + 1\<rparr>)"

subsection \<open>parseTree and parseTreeAndCountCalls, lines 55-65\<close>

definition parseTree :: "bool \<Rightarrow> state \<Rightarrow> nat \<times> state" where
  "parseTree asynchronous s =
     (case newPromise s of
        (p, s1) \<Rightarrow>
          (case parseTree_priv asynchronous (s1\<lparr>nCallsParseTree := 0\<rparr>) of
             (q, s2) \<Rightarrow> (p, resolve p (VPromise q) s2)))"

definition parseTreeAndCountCalls :: "bool \<Rightarrow> state \<Rightarrow> nat \<times> state" where
  "parseTreeAndCountCalls asynchronous s =
     (case newPromise s of
        (p, s1) \<Rightarrow>
          (case parseTree_priv asynchronous (s1\<lparr>nCallsParseTree := 0\<rparr>) of
             (q, s2) \<Rightarrow>
               (case newPromise s2 of
                  (d, s3) \<Rightarrow> (p, resolve p (VPromise d) (then_promise q (K_then62 d) s3)))))"

text \<open>The callback of lines 62-64: \<open>Promise.resolve\<close> of the counter, read when it runs.\<close>

definition then62 :: "nat \<Rightarrow> state \<Rightarrow> state" where
  "then62 d s =
     (case newPromise s of
        (r, s1) \<Rightarrow> resolve d (VPromise r) (fulfill r (VNumber (nCallsParseTree s1)) s1))"

subsection \<open>The constructor, lines 23-39\<close>

definition val_tree :: "val \<Rightarrow> nat option" where
  "val_tree v = (case v of VTree t \<Rightarrow> Some t | _ \<Rightarrow> None)"

definition empty_state :: "ITextModel \<Rightarrow> state" where
  "empty_state m =
     \<lparr>model = m, tree = None, edits = [], nCallsParseTree = 0,
      currentParseOperation = None, timeoutMicros = 0, nextTree = 0, nParses = 0,
      trace = [], promises = (\<lambda>p. Pending []), nextPromise = 0, microtasks = [],
      idleQueue = [], callers = []\<rparr>"

text \<open>
  The state when the constructor returns: \<open>parseTree()\<close> has been called with its
  default argument and the callback of line 31 is registered on its promise.
\<close>

definition new_TreeSitterTree :: "ITextModel \<Rightarrow> state" where
  "new_TreeSitterTree m =
     (case parseTree True (empty_state m) of
        (p, s1) \<Rightarrow> then_promise p K_then31 s1)"

section \<open>The host: jobs, tasks and runs\<close>

text \<open>One job of the microtask queue.\<close>

fun run_job :: "parser \<Rightarrow> job \<Rightarrow> state \<Rightarrow> state" where
  "run_job P (ResolveThenableJob p q) s = then_promise q (K_resolve p) s"
| "run_job P (ReactionJob (K_resolve p) v) s = resolve p v s"
| "run_job P (ReactionJob (K_parseTree q a) v) s = parseTree_resume P q a s"
| "run_job P (ReactionJob (K_then75 m a) v) s = then75 m a s"
| "run_job P (ReactionJob (K_then62 d) v) s = then62 d s"
| "run_job P (ReactionJob (K_then118 n) v) s = resolve n v (s\<lparr>tree := val_tree v\<rparr>)"
| "run_job P (ReactionJob (K_then156 a) v) s = resolve a v s"
| "run_job P (ReactionJob K_then31 v) s =
     (case v of VTree t \<Rightarrow> s\<lparr>tree := Some t\<rparr> | _ \<Rightarrow> s)"

text \<open>
  The microtask queue is run until it is empty, oldest job first. A queue that never
  empties gives \<open>None\<close>.
\<close>

partial_function (option) drain :: "parser \<Rightarrow> state \<Rightarrow> state option" where
  "drain P s =
     (case microtasks s of
        [] \<Rightarrow> Some s
      | j # js \<Rightarrow> drain P (run_job P j (s\<lparr>microtasks := js\<rparr>)))"

declare drain.simps [code]

text \<open>
  What outside code does within one task: call \<open>parseTree\<close> or
  \<open>parseTreeAndCountCalls\<close>, or change the document to a new content, which fires
  \<open>onDidChangeContent\<close> with the changes (line 36).
\<close>

datatype action =
    ParseTree bool
  | ParseTreeAndCountCalls bool
  | ChangeContent ITextModel "IModelContentChange list"

fun do_action :: "action \<Rightarrow> state \<Rightarrow> state" where
  "do_action (ParseTree a) s =
     (case parseTree a s of (p, s1) \<Rightarrow> s1\<lparr>callers := callers s1 @ [p]\<rparr>)"
| "do_action (ParseTreeAndCountCalls a) s =
     (case parseTreeAndCountCalls a s of (p, s1) \<Rightarrow> s1\<lparr>callers := callers s1 @ [p]\<rparr>)"
| "do_action (ChangeContent m changes) s = registerTreeEdits changes (s\<lparr>model := m\<rparr>)"

fun do_actions :: "action list \<Rightarrow> state \<Rightarrow> state" where
  "do_actions [] s = s"
| "do_actions (a # as) s = do_actions as (do_action a s)"

text \<open>
  A task of the host: a script of outside code, or an idle slice, which runs the oldest
  waiting idle callback. The microtask queue is emptied after each task.
\<close>

datatype event = Script "action list" | Idle int

fun do_event :: "parser \<Rightarrow> event \<Rightarrow> state \<Rightarrow> state" where
  "do_event P (Script as) s = do_actions as s"
| "do_event P (Idle remaining) s =
     (case idleQueue s of
        [] \<Rightarrow> s
      | cb # rest \<Rightarrow> idle_slice P remaining cb (s\<lparr>idleQueue := rest\<rparr>))"

definition step :: "parser \<Rightarrow> event \<Rightarrow> state \<Rightarrow> state option" where
  "step P ev s = drain P (do_event P ev s)"

fun run :: "parser \<Rightarrow> event list \<Rightarrow> state \<Rightarrow> state option" where
  "run P [] s = Some s"
| "run P (ev # evs) s = (case step P ev s of None \<Rightarrow> None | Some s1 \<Rightarrow> run P evs s1)"

text \<open>The value a promise was fulfilled with, if it was.\<close>

definition settled :: "state \<Rightarrow> nat \<Rightarrow> val option" where
  "settled s p = (case promises s p of Pending rs \<Rightarrow> None | Fulfilled v \<Rightarrow> Some v)"

section \<open>Parsers, changes and engines used in the examples\<close>

text \<open>A parser that completes every call.\<close>

definition always_completes :: parser where
  "always_completes k budget reader t = Completes"

text \<open>A parser that exceeds its time budget on the calls whose numbers are listed.\<close>

definition times_out_at :: "nat list \<Rightarrow> parser" where
  "times_out_at ks k budget reader t =
     (if k \<in> set ks then Raises TimeBudgetExceeded else Completes)"

text \<open>A parser that raises the listed error on the calls whose numbers are listed.\<close>

definition raises_at :: "(nat \<times> parse_error) list \<Rightarrow> parser" where
  "raises_at tbl k budget reader t =
     (case map_of tbl k of None \<Rightarrow> Completes | Some e \<Rightarrow> Raises e)"

text \<open>
  A parser that needs \<open>cost\<close> microseconds per character of the first chunk it reads,
  and raises when a budget is in effect and is smaller than that.
\<close>

definition budget_parser :: "int \<Rightarrow> parser" where
  "budget_parser cost k budget reader t =
     (if budget \<noteq> 0 \<and> budget < cost * int (length (reader 0 None None))
      then Raises TimeBudgetExceeded else Completes)"

text \<open>
  The change of the spec's round-trip example: in \<open>a=1;\<close> the character at offset 3
  is replaced by \<open>12\<close>.
\<close>

definition change_1_to_12 :: IModelContentChange where
  "change_1_to_12 =
     \<lparr>ch_range = \<lparr>startLineNumber = 1, startColumn = 4, endLineNumber = 1, endColumn = 5\<rparr>,
      rangeOffset = 3, rangeLength = 1, ch_text = ''12''\<rparr>"

text \<open>Later changes of \<open>a=12;\<close>: \<open>3\<close> is inserted at offset 4, or \<open>2\<close> is deleted.\<close>

definition insert_3 :: IModelContentChange where
  "insert_3 =
     \<lparr>ch_range = \<lparr>startLineNumber = 1, startColumn = 5, endLineNumber = 1, endColumn = 5\<rparr>,
      rangeOffset = 4, rangeLength = 0, ch_text = ''3''\<rparr>"


text \<open>The character at offset 3 of \<open>a=1;\<close> is replaced by nine digits.\<close>

definition change_1_to_123456789 :: IModelContentChange where
  "change_1_to_123456789 =
     \<lparr>ch_range = \<lparr>startLineNumber = 1, startColumn = 4, endLineNumber = 1, endColumn = 5\<rparr>,
      rangeOffset = 3, rangeLength = 1, ch_text = ''123456789''\<rparr>"

text \<open>
  An engine constructed on \<open>a=1;\<close> whose first parse has completed: the state at the end
  of the task that ran the constructor, with a parser that completes every call.
\<close>

definition parsed_engine :: state where
  "parsed_engine = the (run always_completes [Script []] (new_TreeSitterTree ''a=1;''))"

text \<open>The same engine after the document has changed to \<open>a=12;\<close>.\<close>

definition edited_engine :: state where
  "edited_engine = do_action (ChangeContent ''a=12;'' [change_1_to_12]) parsed_engine"

text \<open>
  An engine constructed on \<open>a=1;\<close> whose document changed to \<open>a=12;\<close> in the task
  that ran the constructor: the first parse has not run yet and one edit is buffered.
\<close>

definition unparsed_engine :: state where
  "unparsed_engine =
     do_action (ChangeContent ''a=12;'' [change_1_to_12]) (new_TreeSitterTree ''a=1;'')"


text \<open>
  A call of \<open>parseTree\<close> whose synchronous attempt times out, an edit registered while
  the fallback is in progress, and the idle slice that completes the fallback. In the
  second run the further synchronous attempt times out as well.
\<close>

definition edit_during_fallback :: "state option" where
  "edit_during_fallback =
     run (times_out_at [1])
       [Script [ParseTree True], Script [ChangeContent ''a=123;'' [insert_3]], Idle 7]
       edited_engine"

definition edit_during_fallback_twice :: "state option" where
  "edit_during_fallback_twice =
     run (times_out_at [1, 3])
       [Script [ParseTree True], Script [ChangeContent ''a=123;'' [insert_3]], Idle 7]
       edited_engine"

text \<open>
  Two calls of \<open>parseTree\<close> issued before either resolves: the constructor's call
  followed by a call in the same task, and two calls in one task on an engine with a
  buffered edit. In both the first synchronous attempt times out.
\<close>

definition call_after_constructor :: "state option" where
  "call_after_constructor =
     run (times_out_at [0]) [Script [ParseTree True]] (new_TreeSitterTree ''a=1;'')"

definition two_calls_one_task :: "state option" where
  "two_calls_one_task =
     run (times_out_at [1]) [Script [ParseTree True, ParseTree True]] edited_engine"

text \<open>
  Two changes of \<open>a=1;\<close>, one after the other: \<open>xx\<close> is inserted at offset 0, which
  gives \<open>xxa=1;\<close>, then the character at offset 4 is deleted, which gives \<open>xxa=;\<close>. The
  engine of \<open>parsed_engine\<close> after both.
\<close>

definition insert_xx :: IModelContentChange where
  "insert_xx =
     \<lparr>ch_range = \<lparr>startLineNumber = 1, startColumn = 1, endLineNumber = 1, endColumn = 1\<rparr>,
      rangeOffset = 0, rangeLength = 0, ch_text = ''xx''\<rparr>"

definition delete_1 :: IModelContentChange where
  "delete_1 =
     \<lparr>ch_range = \<lparr>startLineNumber = 1, startColumn = 5, endLineNumber = 1, endColumn = 6\<rparr>,
      rangeOffset = 4, rangeLength = 1, ch_text = []\<rparr>"

definition twice_edited_engine :: state where
  "twice_edited_engine =
     do_actions [ChangeContent ''xxa=1;'' [insert_xx], ChangeContent ''xxa=;'' [delete_1]]
       parsed_engine"

text \<open>
  A \<open>tree.edit\<close> for the examples. The tree is one offset, the place of a node in the
  text: an edit that ends at or before the node moves it by the edit's change of length,
  an edit that starts before the node and ends after it moves it to the edit's new end,
  and an edit after the node leaves it where it is.
\<close>

definition move_offset :: "int \<Rightarrow> Edit \<Rightarrow> int" where
  "move_offset p e =
     (if oldEndIndex e \<le> p then p + (newEndIndex e - oldEndIndex e)
      else if startIndex e < p then newEndIndex e
      else p)"

section \<open>Auxiliary notions\<close>

text \<open>Positions in document order.\<close>

definition pos_le :: "Position \<Rightarrow> Position \<Rightarrow> bool" where
  "pos_le a b =
     (lineNumber a < lineNumber b \<or> (lineNumber a = lineNumber b \<and> column a \<le> column b))"

text \<open>
  The call an idle slice makes on the parser when it is granted \<open>fst f\<close> milliseconds
  and the parser raises \<open>snd f\<close>.
\<close>

definition failed_slice :: "ITextModel \<Rightarrow> nat option \<Rightarrow> int \<times> parse_error \<Rightarrow> ext_call" where
  "failed_slice tm t f =
     ParserParse ParseAsync
       \<lparr>timeout = fst f * 1000, reader_model = tm, oldTree = t\<rparr> (Inl (snd f))"

text \<open>
  The shape of the state while the fallback of a call of \<open>parseTree(a)\<close> waits for its
  next idle slice, \<open>j\<close> slices having failed. The call created the promises \<open>b\<close>
  (of \<open>parseTree\<close>, with reactions \<open>rs0\<close>), \<open>b + 1\<close> (of \<open>_parseTree\<close>), \<open>b + 2\<close>
  (of \<open>_tryParseSync\<close>), \<open>b + 3\<close> (line 117) and \<open>b + 4\<close> (the first
  \<open>_parseAsync\<close>); each failed slice created one more.
\<close>

definition in_fallback ::
  "bool \<Rightarrow> nat \<Rightarrow> reaction list \<Rightarrow> nat \<Rightarrow> ITextModel \<Rightarrow> nat option \<Rightarrow> state \<Rightarrow> bool" where
  "in_fallback a b rs0 j tm t u \<longleftrightarrow>
     microtasks u = [] \<and> edits u = [] \<and> currentParseOperation u = Some (b + 2) \<and>
     idleQueue u = [\<lparr>cb_textModel = tm, cb_tree = t, cb_promise = b + 4 + j\<rparr>] \<and>
     nextPromise u = b + 5 + j \<and>
     promises u b = Pending rs0 \<and>
     promises u (b + 1) = Pending [K_resolve b] \<and>
     promises u (b + 2) = Pending [K_then75 (b + 2) a, K_resolve (b + 1)] \<and>
     promises u (b + 3) = Pending [K_resolve (b + 2)] \<and>
     promises u (b + 4) = Pending [K_then118 (b + 3)] \<and>
     (\<forall>i<j. promises u (b + 5 + i) = Pending [K_then156 (b + 4 + i)])"








text \<open>
  The trees belong to the parser library, and what \<open>tree.edit\<close> does to one is not in
  the engine's code: it is the parameter \<open>ap\<close>. \<open>replay ap t x calls\<close> is the content of
  tree \<open>t\<close> after the calls, for a tree whose content was \<open>x\<close> before them.
\<close>

fun replay :: "('c \<Rightarrow> Edit \<Rightarrow> 'c) \<Rightarrow> nat \<Rightarrow> 'c \<Rightarrow> ext_call list \<Rightarrow> 'c" where
  "replay ap t x [] = x"
| "replay ap t x (TreeEdit u e # cs) = replay ap t (if u = t then ap x e else x) cs"
| "replay ap t x (ParserParse og rq r # cs) = replay ap t x cs"

section \<open>The document collaborator: offsets and positions\<close>

lemma positionFrom_ge:
  "pos_le \<lparr>lineNumber = l, column = c\<rparr> (positionFrom l c xs n)"
proof (induction l c xs n rule: positionFrom.induct)
  case (1 l c xs)
  show ?case by (simp add: pos_le_def)
next
  case (2 l c n)
  show ?case by (simp add: pos_le_def)
next
  case (3 l c x xs n)
  then show ?case by (auto simp: pos_le_def)
qed

lemma positionFrom_line_ge: "l \<le> lineNumber (positionFrom l c xs n)"
  using positionFrom_ge [of l c xs n] by (auto simp: pos_le_def)

lemma positionFrom_column_ge: "1 \<le> c \<Longrightarrow> 1 \<le> column (positionFrom l c xs n)"
  by (induction l c xs n rule: positionFrom.induct) auto

lemma offsetFrom_positionFrom:
  "offsetFrom l c xs (positionFrom l c xs n) acc = acc + min n (length xs)"
proof (induction l c xs n arbitrary: acc rule: positionFrom.induct)
  case (1 l c xs)
  show ?case by (cases xs) simp_all
next
  case (2 l c n)
  show ?case by simp
next
  case (3 l c x xs n)
  show ?case
  proof (cases "x = CHR 0x0A")
    case True
    have "pos_le \<lparr>lineNumber = l + 1, column = 1\<rparr> (positionFrom (l + 1) 1 xs n)"
      by (rule positionFrom_ge)
    with True 3(1) [OF True, of "Suc acc"] show ?thesis
      by (auto simp: pos_le_def)
  next
    case False
    have "pos_le \<lparr>lineNumber = l, column = c + 1\<rparr> (positionFrom l (c + 1) xs n)"
      by (rule positionFrom_ge)
    with False 3(2) [OF False, of "Suc acc"] show ?thesis
      by (auto simp: pos_le_def)
  qed
qed

lemma positionFrom_mono:
  "n \<le> n' \<Longrightarrow> pos_le (positionFrom l c xs n) (positionFrom l c xs n')"
proof (induction l c xs n arbitrary: n' rule: positionFrom.induct)
  case (1 l c xs)
  show ?case using positionFrom_ge [of l c xs n'] by simp
next
  case (2 l c n)
  show ?case by (cases n') (simp_all add: pos_le_def)
next
  case (3 l c x xs n)
  then obtain k where "n' = Suc k" "n \<le> k" by (cases n') auto
  with 3 show ?case by auto
qed

lemma getOffsetAt_getPositionAt:
  "getOffsetAt m (getPositionAt m k) = min (nat k) (length m)"
  by (simp add: getOffsetAt_def getPositionAt_def offsetFrom_positionFrom)

lemma getValueInRange_fromPositions:
  assumes "a \<le> b"
  shows "getValueInRange m (fromPositions (getPositionAt m a) (getPositionAt m b)) =
         take (min (nat b) (length m) - min (nat a) (length m))
              (drop (min (nat a) (length m)) m)"
proof -
  let ?pa = "getPositionAt m a" and ?pb = "getPositionAt m b"
  have le: "pos_le ?pa ?pb"
    unfolding getPositionAt_def using assms by (intro positionFrom_mono) simp
  have eta: "\<And>p::Position. \<lparr>lineNumber = lineNumber p, column = column p\<rparr> = p"
    by simp
  show ?thesis
  proof (cases "lineNumber ?pa > lineNumber ?pb \<or>
                (lineNumber ?pa = lineNumber ?pb \<and> column ?pa > column ?pb)")
    case True
    with le have False by (auto simp: pos_le_def)
    then show ?thesis ..
  next
    case False
    then have fp: "fromPositions ?pa ?pb =
        \<lparr>startLineNumber = lineNumber ?pa, startColumn = column ?pa,
         endLineNumber = lineNumber ?pb, endColumn = column ?pb\<rparr>"
      unfolding fromPositions_def by (rule if_not_P)
    show ?thesis
      unfolding fp by (simp add: getValueInRange_def Let_def eta getOffsetAt_getPositionAt)
  qed
qed

lemma retrieveTextAtPosition_chunk:
  "retrieveTextAtPosition m s sp None = take (nat (s + 5000) - nat s) (drop (nat s) m)"
proof -
  have "retrieveTextAtPosition m s sp None =
     take (min (nat (s + 5000)) (length m) - min (nat s) (length m))
          (drop (min (nat s) (length m)) m)"
    by (simp add: retrieveTextAtPosition_def Let_def getValueInRange_fromPositions)
  also have "\<dots> = take (nat (s + 5000) - nat s) (drop (nat s) m)"
  proof (cases "nat s \<le> length m")
    case True
    then show ?thesis by (cases "nat (s + 5000) \<le> length m") (simp_all add: min_def)
  next
    case False
    then show ?thesis by simp
  qed
  finally show ?thesis .
qed

section \<open>The text-retrieval callback reads 5000 units by default\<close>

text \<open>
  C6. When no ending offset is supplied, \<open>_retrieveTextAtPosition\<close> returns the text of
  the bound model in the range from the position of \<open>startIndex\<close> to the position of
  \<open>startIndex + 5000\<close>: the same string as with the ending offset \<open>startIndex + 5000\<close>
  supplied. On the content this is the chunk of at most 5000 units that starts at
  \<open>startIndex\<close>.
\<close>

theorem retrieveTextAtPosition_default_chunk:
  "retrieveTextAtPosition m startIdx sp None =
     getValueInRange m
       (fromPositions (getPositionAt m startIdx) (getPositionAt m (startIdx + 5000))) \<and>
   retrieveTextAtPosition m startIdx sp None =
     retrieveTextAtPosition m startIdx sp (Some (startIdx + 5000)) \<and>
   retrieveTextAtPosition m startIdx sp None =
     take (nat (startIdx + 5000) - nat startIdx) (drop (nat startIdx) m) \<and>
   (0 \<le> startIdx \<longrightarrow>
      retrieveTextAtPosition m startIdx sp None = take 5000 (drop (nat startIdx) m))"
proof (intro conjI impI)
  show "retrieveTextAtPosition m startIdx sp None =
     getValueInRange m
       (fromPositions (getPositionAt m startIdx) (getPositionAt m (startIdx + 5000)))"
    by (simp add: retrieveTextAtPosition_def)
  show "retrieveTextAtPosition m startIdx sp None =
     retrieveTextAtPosition m startIdx sp (Some (startIdx + 5000))"
    by (simp add: retrieveTextAtPosition_def)
  show "retrieveTextAtPosition m startIdx sp None =
     take (nat (startIdx + 5000) - nat startIdx) (drop (nat startIdx) m)"
    by (rule retrieveTextAtPosition_chunk)
  assume "0 \<le> startIdx"
  then have "nat (startIdx + 5000) - nat startIdx = 5000"
    by simp
  then show "retrieveTextAtPosition m startIdx sp None = take 5000 (drop (nat startIdx) m)"
    by (simp add: retrieveTextAtPosition_chunk)
qed

theorem retrieveTextAtPosition_default_chunk_witness:
  "(0::int) \<le> 1 \<and>
   retrieveTextAtPosition ''ab\<newline>cd\<newline>ef'' 1 None None = ''b\<newline>cd\<newline>ef'' \<and>
   retrieveTextAtPosition ''ab\<newline>cd\<newline>ef'' 1 None (Some 5001) = ''b\<newline>cd\<newline>ef''"
proof -
  have h: "(0::int) \<le> 1"
    by simp
  from retrieveTextAtPosition_default_chunk [of "''ab\<newline>cd\<newline>ef''" 1 None]
  have a: "retrieveTextAtPosition ''ab\<newline>cd\<newline>ef'' 1 None None =
           retrieveTextAtPosition ''ab\<newline>cd\<newline>ef'' 1 None (Some (1 + 5000))"
    and b: "retrieveTextAtPosition ''ab\<newline>cd\<newline>ef'' 1 None None =
            take 5000 (drop (nat 1) ''ab\<newline>cd\<newline>ef'')"
    using h by blast+
  from b have c: "retrieveTextAtPosition ''ab\<newline>cd\<newline>ef'' 1 None None = ''b\<newline>cd\<newline>ef''"
    by simp
  from a c have "retrieveTextAtPosition ''ab\<newline>cd\<newline>ef'' 1 None (Some 5001) = ''b\<newline>cd\<newline>ef''"
    by simp
  with h c show ?thesis
    by simp
qed

section \<open>Running the machine\<close>

lemma drain_nil: "microtasks s = [] \<Longrightarrow> drain P s = Some s"
  by (subst drain.simps) simp

lemma drain_cons:
  "microtasks s = j # js \<Longrightarrow> drain P s = drain P (run_job P j (s\<lparr>microtasks := js\<rparr>))"
  by (subst drain.simps) simp

lemmas machine_defs =
  newPromise_def enqueue_def fulfill_def resolve_def then_promise_def await_def
  op_val_def parseTree_priv_def parseTree_resume_def then75_def parseTree_def
  parseTreeAndCountCalls_def then62_def val_tree_def step_def settled_def
  tryParseSync_def updateAndGetTree_def parser_parse_def setTimeoutMicros_def
  parseAsync_def idle_slice_def createTextModel_def createSnapshot_def setValue_def

lemma edit_all_eq: "edit_all t es s = s\<lparr>trace := trace s @ map (TreeEdit t) es\<rparr>"
  by (induction es arbitrary: s) simp_all

lemma registerTreeEdits_eq:
  "registerTreeEdits changes s = s\<lparr>edits := edits s @ map (mk_edit (model s)) changes\<rparr>"
  by (induction changes arbitrary: s) simp_all

lemma mk_edit_change_1_to_12:
  "mk_edit ''a=12;'' change_1_to_12 =
     \<lparr>startPosition = \<lparr>row = 0, pt_column = 3\<rparr>, oldEndPosition = \<lparr>row = 0, pt_column = 4\<rparr>,
      newEndPosition = \<lparr>row = 0, pt_column = 5\<rparr>,
      startIndex = 3, oldEndIndex = 4, newEndIndex = 5\<rparr>"
  by code_simp

lemma parsed_engine_fields:
  "tree parsed_engine = Some 0"
  "edits parsed_engine = []"
  "currentParseOperation parsed_engine = None"
  "microtasks parsed_engine = []"
  "nextPromise parsed_engine = 3"
  "nParses parsed_engine = 1"
  "nextTree parsed_engine = 1"
  "callers parsed_engine = []"
  "timeoutMicros parsed_engine = 10000"
  "model parsed_engine = ''a=1;''"
  "trace parsed_engine =
     [ParserParse TryParseSync
        \<lparr>timeout = 10000, reader_model = ''a=1;'', oldTree = None\<rparr> (Inr 0)]"
  by code_simp+

lemma edited_engine_fields:
  "tree edited_engine = Some 0"
  "edits edited_engine = [mk_edit ''a=12;'' change_1_to_12]"
  "currentParseOperation edited_engine = None"
  "microtasks edited_engine = []"
  "nextPromise edited_engine = 3"
  "nParses edited_engine = 1"
  "nextTree edited_engine = 1"
  "callers edited_engine = []"
  "timeoutMicros edited_engine = 10000"
  "model edited_engine = ''a=12;''"
  "trace edited_engine =
     [ParserParse TryParseSync
        \<lparr>timeout = 10000, reader_model = ''a=1;'', oldTree = None\<rparr> (Inr 0)]"
  by code_simp+

lemma unparsed_engine_fields:
  "tree unparsed_engine = None"
  "edits unparsed_engine = [mk_edit ''a=12;'' change_1_to_12]"
  "timeoutMicros unparsed_engine = 0"
  "model unparsed_engine = ''a=12;''"
  "trace unparsed_engine = []"
  by code_simp+

section \<open>The edits that registerTreeEdits appends\<close>

text \<open>
  C5. When the document has changed to content \<open>m\<close> and the change event fires,
  \<open>registerTreeEdits\<close> appends one edit per change, in order. For a change whose
  \<open>rangeLength\<close> is not negative the edit has \<open>startIndex \<le> oldEndIndex\<close> and
  \<open>startIndex \<le> newEndIndex\<close>. Its start and old end points are the ends of the change's
  range, each line and column less one, so zero-based where the range is one-based; its
  new end point is the position the live document, as it is when the event fires, gives
  for \<open>newEndIndex\<close>, less one in line and column, and its row and column are not
  negative.
\<close>

theorem registerTreeEdits_edit_invariant:
  "edits (do_action (ChangeContent m changes) s) = edits s @ map (mk_edit m) changes \<and>
   (\<forall>c::IModelContentChange\<in>set changes. 0 \<le> rangeLength c \<longrightarrow>
       startIndex (mk_edit m c) \<le> oldEndIndex (mk_edit m c) \<and>
       startIndex (mk_edit m c) \<le> newEndIndex (mk_edit m c)) \<and>
   (\<forall>c::IModelContentChange\<in>set changes.
       startPosition (mk_edit m c) =
         \<lparr>row = startLineNumber (ch_range c) - 1, pt_column = startColumn (ch_range c) - 1\<rparr> \<and>
       oldEndPosition (mk_edit m c) =
         \<lparr>row = endLineNumber (ch_range c) - 1, pt_column = endColumn (ch_range c) - 1\<rparr> \<and>
       newEndPosition (mk_edit m c) =
         \<lparr>row = lineNumber (getPositionAt m (newEndIndex (mk_edit m c))) - 1,
          pt_column = column (getPositionAt m (newEndIndex (mk_edit m c))) - 1\<rparr> \<and>
       0 \<le> row (newEndPosition (mk_edit m c)) \<and>
       0 \<le> pt_column (newEndPosition (mk_edit m c))) \<and>
   (\<forall>c::IModelContentChange\<in>set changes.
       1 \<le> startLineNumber (ch_range c) \<and> 1 \<le> startColumn (ch_range c) \<and>
       1 \<le> endLineNumber (ch_range c) \<and> 1 \<le> endColumn (ch_range c) \<longrightarrow>
       0 \<le> row (startPosition (mk_edit m c)) \<and>
       0 \<le> pt_column (startPosition (mk_edit m c)) \<and>
       0 \<le> row (oldEndPosition (mk_edit m c)) \<and>
       0 \<le> pt_column (oldEndPosition (mk_edit m c)))"
proof (intro conjI ballI impI)
  show "edits (do_action (ChangeContent m changes) s) = edits s @ map (mk_edit m) changes"
    by (simp add: registerTreeEdits_eq)
next
  fix c :: IModelContentChange
  assume "0 \<le> rangeLength c"
  then show "startIndex (mk_edit m c) \<le> oldEndIndex (mk_edit m c)"
    by (simp add: mk_edit_def Let_def)
next
  fix c :: IModelContentChange
  show "startIndex (mk_edit m c) \<le> newEndIndex (mk_edit m c)"
    by (simp add: mk_edit_def Let_def)
next
  fix c :: IModelContentChange
  show "startPosition (mk_edit m c) =
         \<lparr>row = startLineNumber (ch_range c) - 1, pt_column = startColumn (ch_range c) - 1\<rparr>"
    by (simp add: mk_edit_def Let_def)
next
  fix c :: IModelContentChange
  show "oldEndPosition (mk_edit m c) =
         \<lparr>row = endLineNumber (ch_range c) - 1, pt_column = endColumn (ch_range c) - 1\<rparr>"
    by (simp add: mk_edit_def Let_def)
next
  fix c :: IModelContentChange
  show "newEndPosition (mk_edit m c) =
         \<lparr>row = lineNumber (getPositionAt m (newEndIndex (mk_edit m c))) - 1,
          pt_column = column (getPositionAt m (newEndIndex (mk_edit m c))) - 1\<rparr>"
    by (simp add: mk_edit_def Let_def)
next
  fix c :: IModelContentChange
  show "0 \<le> row (newEndPosition (mk_edit m c))"
    using positionFrom_line_ge [of 1 1 m "nat (rangeOffset c + int (length (ch_text c)))"]
    by (simp add: mk_edit_def Let_def getPositionAt_def)
next
  fix c :: IModelContentChange
  show "0 \<le> pt_column (newEndPosition (mk_edit m c))"
    using positionFrom_column_ge [of 1 1 m "nat (rangeOffset c + int (length (ch_text c)))"]
    by (simp add: mk_edit_def Let_def getPositionAt_def)
next
  fix c :: IModelContentChange
  assume "1 \<le> startLineNumber (ch_range c) \<and> 1 \<le> startColumn (ch_range c) \<and>
       1 \<le> endLineNumber (ch_range c) \<and> 1 \<le> endColumn (ch_range c)"
  then show "0 \<le> row (startPosition (mk_edit m c))"
    and "0 \<le> pt_column (startPosition (mk_edit m c))"
    and "0 \<le> row (oldEndPosition (mk_edit m c))"
    and "0 \<le> pt_column (oldEndPosition (mk_edit m c))"
    by (simp_all add: mk_edit_def Let_def)
qed

theorem registerTreeEdits_edit_invariant_witness:
  "change_1_to_12 \<in> set [change_1_to_12] \<and> 0 \<le> rangeLength change_1_to_12 \<and>
   1 \<le> startLineNumber (ch_range change_1_to_12) \<and>
   1 \<le> startColumn (ch_range change_1_to_12) \<and>
   1 \<le> endLineNumber (ch_range change_1_to_12) \<and>
   1 \<le> endColumn (ch_range change_1_to_12) \<and>
   0 \<le> row (oldEndPosition (mk_edit ''a=12;'' change_1_to_12)) \<and>
   edits (do_action (ChangeContent ''a=12;'' [change_1_to_12]) parsed_engine) =
     [\<lparr>startPosition = \<lparr>row = 0, pt_column = 3\<rparr>, oldEndPosition = \<lparr>row = 0, pt_column = 4\<rparr>,
       newEndPosition = \<lparr>row = 0, pt_column = 5\<rparr>,
       startIndex = 3, oldEndIndex = 4, newEndIndex = 5\<rparr>] \<and>
   startIndex (mk_edit ''a=12;'' change_1_to_12) \<le> oldEndIndex (mk_edit ''a=12;'' change_1_to_12) \<and>
   startIndex (mk_edit ''a=12;'' change_1_to_12) \<le> newEndIndex (mk_edit ''a=12;'' change_1_to_12)"
proof -
  have h: "change_1_to_12 \<in> set [change_1_to_12]" "0 \<le> rangeLength change_1_to_12"
    "1 \<le> startLineNumber (ch_range change_1_to_12)"
    "1 \<le> startColumn (ch_range change_1_to_12)"
    "1 \<le> endLineNumber (ch_range change_1_to_12)"
    "1 \<le> endColumn (ch_range change_1_to_12)"
    by (simp_all add: change_1_to_12_def)
  from registerTreeEdits_edit_invariant [of "''a=12;''" "[change_1_to_12]" parsed_engine] h
  show ?thesis
    by (simp add: parsed_engine_fields mk_edit_change_1_to_12)
qed

section \<open>Draining the edit buffer\<close>

lemma updateAndGetTree_Some:
  "tree s = Some t \<Longrightarrow>
   updateAndGetTree s =
     (Some t, s\<lparr>trace := trace s @ map (TreeEdit t) (edits s), edits := []\<rparr>)"
  by (simp add: updateAndGetTree_def edit_all_eq)

lemma tryParseSync_with_tree:
  assumes "tree s = Some t"
  shows "edits (snd (tryParseSync P a s)) = [] \<and>
    (\<exists>r. trace (snd (tryParseSync P a s)) = trace s @ map (TreeEdit t) (edits s) @
        [ParserParse TryParseSync
           \<lparr>timeout = (if a then 10000 else timeoutMicros s), reader_model = model s,
            oldTree = Some t\<rparr> r])"
  using assms
  by (simp add: machine_defs edit_all_eq Let_def split: outcome.splits)

lemma tryParseSync_without_tree:
  assumes "tree s = None"
  shows "edits (snd (tryParseSync P a s)) = edits s \<and>
    (\<exists>r. trace (snd (tryParseSync P a s)) = trace s @
        [ParserParse TryParseSync
           \<lparr>timeout = (if a then 10000 else timeoutMicros s), reader_model = model s,
            oldTree = None\<rparr> r])"
  using assms
  by (simp add: machine_defs edit_all_eq Let_def split: outcome.splits)

lemma idle_slice_keeps_buffer:
  "edits (idle_slice P r cb s) = edits s \<and>
   (\<exists>res. trace (idle_slice P r cb s) =
      trace s @ [ParserParse ParseAsync
                   \<lparr>timeout = r * 1000, reader_model = cb_textModel cb, oldTree = cb_tree cb\<rparr>
                   res])"
  by (simp add: machine_defs Let_def split: outcome.splits pstate.splits)

lemma replay_append:
  "replay ap t x (cs @ ds) = replay ap t (replay ap t x cs) ds"
  by (induction ap t x cs rule: replay.induct) simp_all

lemma replay_edits: "replay ap t x (map (TreeEdit t) es) = foldl ap x es"
  by (induction es arbitrary: x) simp_all

text \<open>No job of the event loop leaves the buffer partially drained.\<close>

lemma resolve_edits: "edits (resolve p v s) = edits s"
  by (simp add: resolve_def fulfill_def enqueue_def split: val.splits pstate.splits)

lemma then_promise_edits: "edits (then_promise q r s) = edits s"
  by (simp add: then_promise_def enqueue_def split: pstate.splits)

lemma tryParseSync_edits:
  "edits (snd (tryParseSync P a s)) = (if tree s = None then edits s else [])"
  by (simp add: machine_defs edit_all_eq Let_def split: outcome.splits option.splits pstate.splits)

lemma run_job_edits:
  "edits (run_job P j s) = edits s \<or> edits (run_job P j s) = []"
proof (cases j)
  case (ReactionJob r v)
  show ?thesis
  proof (cases r)
    case (K_parseTree q a)
    show ?thesis
      unfolding ReactionJob K_parseTree
      by (simp add: parseTree_resume_def Let_def resolve_edits then_promise_edits
          tryParseSync_edits split: prod.splits)
        (metis snd_conv tryParseSync_edits)
  next
    case (K_then75 m a)
    show ?thesis
      unfolding ReactionJob K_then75
      by (simp add: then75_def parseTree_priv_def await_def newPromise_def Let_def
          then_promise_edits enqueue_def op_val_def split: val.splits option.splits)
  next
    case (K_then62 d)
    show ?thesis
      unfolding ReactionJob K_then62
      by (simp add: then62_def newPromise_def resolve_edits fulfill_def split: pstate.splits)
  next
    case (K_then118 n)
    show ?thesis unfolding ReactionJob K_then118 by (simp add: resolve_edits)
  next
    case (K_then156 n)
    show ?thesis unfolding ReactionJob K_then156 by (simp add: resolve_edits)
  next
    case K_then31
    show ?thesis unfolding ReactionJob K_then31 by (simp split: val.splits)
  next
    case (K_resolve p)
    show ?thesis unfolding ReactionJob K_resolve by (simp add: resolve_edits)
  qed
next
  case (ResolveThenableJob p q)
  show ?thesis unfolding ResolveThenableJob by (simp add: then_promise_edits)
qed

lemma twice_edited_engine_fields:
  "tree twice_edited_engine = Some 0"
  "edits twice_edited_engine = [mk_edit ''xxa=1;'' insert_xx, mk_edit ''xxa=;'' delete_1]"
  "model twice_edited_engine = ''xxa=;''"
  "timeoutMicros twice_edited_engine = 10000"
  "trace twice_edited_engine =
     [ParserParse TryParseSync
        \<lparr>timeout = 10000, reader_model = ''a=1;'', oldTree = None\<rparr> (Inr 0)]"
  "foldl move_offset 3 (edits twice_edited_engine) = 4"
  "foldl move_offset 3 (rev (edits twice_edited_engine)) = 5"
  "rev (edits twice_edited_engine) \<noteq> edits twice_edited_engine"
  by code_simp+

text \<open>
  C4, as stated, fails where a parse is performed without a current tree, and in the idle
  slices of the fallback. The engine is constructed on \<open>a=1;\<close> and the document changes
  to \<open>a=12;\<close> in the same task, so one edit is buffered when the first parse runs:
  \<open>_tryParseSync\<close> invokes the parser and leaves the edit in the buffer; in the run, the
  parser is invoked before the edit is applied to any tree. On an engine that holds a
  tree, an edit registered while the fallback waits is in the buffer when the idle slice
  parses, and is still there when the slice has parsed: the slice calls the parser and
  no \<open>tree.edit\<close>.
\<close>

theorem parse_without_tree_does_not_drain:
  "edits unparsed_engine = [mk_edit ''a=12;'' change_1_to_12] \<and>
   edits (snd (tryParseSync always_completes True unparsed_engine)) =
     [mk_edit ''a=12;'' change_1_to_12] \<and>
   trace (snd (tryParseSync always_completes True unparsed_engine)) =
     [ParserParse TryParseSync
        \<lparr>timeout = 10000, reader_model = ''a=12;'', oldTree = None\<rparr> (Inr 0)] \<and>
   map_option trace (drain always_completes unparsed_engine) =
     Some [ParserParse TryParseSync
             \<lparr>timeout = 10000, reader_model = ''a=12;'', oldTree = None\<rparr> (Inr 0),
           TreeEdit 0 (mk_edit ''a=12;'' change_1_to_12),
           ParserParse TryParseSync
             \<lparr>timeout = 10000, reader_model = ''a=12;'', oldTree = Some 0\<rparr> (Inr 1)] \<and>
   map_option
     (\<lambda>u. (edits u, edits (do_event (times_out_at [1]) (Idle 7) u),
           drop (length (trace u)) (trace (do_event (times_out_at [1]) (Idle 7) u))))
     (run (times_out_at [1])
        [Script [ParseTree True], Script [ChangeContent ''a=123;'' [insert_3]]]
        edited_engine) =
     Some ([mk_edit ''a=123;'' insert_3], [mk_edit ''a=123;'' insert_3],
           [ParserParse ParseAsync
              \<lparr>timeout = 7000, reader_model = ''a=12;'', oldTree = Some 0\<rparr> (Inr 1)])"
  by code_simp

text \<open>
  C4, amended. Whenever \<open>_tryParseSync\<close> performs a parse while a current tree exists,
  the edit buffer is drained atomically: \<open>updateAndGetTree\<close> applies all buffered edits
  and clears the buffer, and no observer sees a partially drained buffer, the observers
  being the jobs of the event loop (after a job the buffer is as it was before the job,
  or empty). The drained edits are applied to the existing tree via \<open>tree.edit\<close> one
  by one in exactly the order they were registered, before the parser is invoked with
  that tree as baseline.
  Applying them in a different order is not equivalent: a buffer that differs from the
  registered one, by its order or otherwise, gives a different sequence of \<open>tree.edit\<close>
  calls; and whatever one call of \<open>tree.edit\<close> does to a tree (\<open>ap\<close>, a parameter, since
  the trees belong to the parser library), the tree the parser receives is the result of
  the calls made one after the other in buffer order, so that edits whose results differ
  between two orders give different baselines. A parse performed while no tree exists,
  or by an idle slice of the fallback, does not drain the buffer and calls no
  \<open>tree.edit\<close>.
\<close>

theorem updateAndGetTree_applies_in_order:
  assumes "tree s = Some t"
  shows "updateAndGetTree s =
           (Some t, s\<lparr>trace := trace s @ map (TreeEdit t) (edits s), edits := []\<rparr>) \<and>
         edits (snd (tryParseSync P a s)) = [] \<and>
         (\<exists>r. trace (snd (tryParseSync P a s)) =
            trace s @ map (TreeEdit t) (edits s) @
            [ParserParse TryParseSync
               \<lparr>timeout = (if a then 10000 else timeoutMicros s), reader_model = model s,
                oldTree = Some t\<rparr> r]) \<and>
         (edits (run_job P j s3) = edits s3 \<or> edits (run_job P j s3) = []) \<and>
         replay ap t x (trace (snd (updateAndGetTree s))) =
           foldl ap (replay ap t x (trace s)) (edits s) \<and>
         (\<forall>es. es \<noteq> edits s \<longrightarrow>
            trace (snd (updateAndGetTree (s\<lparr>edits := es\<rparr>))) \<noteq>
            trace (snd (updateAndGetTree s))) \<and>
         (\<forall>es. foldl ap (replay ap t x (trace s)) es \<noteq>
               foldl ap (replay ap t x (trace s)) (edits s) \<longrightarrow>
            replay ap t x (trace (snd (updateAndGetTree (s\<lparr>edits := es\<rparr>)))) \<noteq>
            replay ap t x (trace (snd (updateAndGetTree s)))) \<and>
         (tree s1 = None \<longrightarrow>
            edits (snd (tryParseSync P a s1)) = edits s1 \<and>
            (\<exists>r. trace (snd (tryParseSync P a s1)) =
               trace s1 @
               [ParserParse TryParseSync
                  \<lparr>timeout = (if a then 10000 else timeoutMicros s1), reader_model = model s1,
                   oldTree = None\<rparr> r])) \<and>
         edits (idle_slice P remaining cb s2) = edits s2 \<and>
         (\<exists>r. trace (idle_slice P remaining cb s2) =
            trace s2 @
            [ParserParse ParseAsync
               \<lparr>timeout = remaining * 1000, reader_model = cb_textModel cb,
                oldTree = cb_tree cb\<rparr> r])"
proof (intro conjI allI impI)
  show "updateAndGetTree s =
           (Some t, s\<lparr>trace := trace s @ map (TreeEdit t) (edits s), edits := []\<rparr>)"
    using assms by (rule updateAndGetTree_Some)
  show "edits (snd (tryParseSync P a s)) = []"
    using tryParseSync_with_tree [OF assms] by blast
  show "\<exists>r. trace (snd (tryParseSync P a s)) =
            trace s @ map (TreeEdit t) (edits s) @
            [ParserParse TryParseSync
               \<lparr>timeout = (if a then 10000 else timeoutMicros s), reader_model = model s,
                oldTree = Some t\<rparr> r]"
    using tryParseSync_with_tree [OF assms] by blast
  show "edits (run_job P j s3) = edits s3 \<or> edits (run_job P j s3) = []"
    by (rule run_job_edits)
  show "replay ap t x (trace (snd (updateAndGetTree s))) =
           foldl ap (replay ap t x (trace s)) (edits s)"
    using assms by (simp add: updateAndGetTree_Some replay_append replay_edits)
  show "edits (idle_slice P remaining cb s2) = edits s2"
    using idle_slice_keeps_buffer by blast
  show "\<exists>r. trace (idle_slice P remaining cb s2) =
            trace s2 @
            [ParserParse ParseAsync
               \<lparr>timeout = remaining * 1000, reader_model = cb_textModel cb,
                oldTree = cb_tree cb\<rparr> r]"
    using idle_slice_keeps_buffer by blast
next
  fix es
  assume "es \<noteq> edits s"
  moreover have "inj (TreeEdit t)"
    by (rule injI) simp
  ultimately show "trace (snd (updateAndGetTree (s\<lparr>edits := es\<rparr>))) \<noteq>
            trace (snd (updateAndGetTree s))"
    using assms by (simp add: updateAndGetTree_Some inj_map_eq_map)
next
  fix es
  assume "foldl ap (replay ap t x (trace s)) es \<noteq>
               foldl ap (replay ap t x (trace s)) (edits s)"
  then show "replay ap t x (trace (snd (updateAndGetTree (s\<lparr>edits := es\<rparr>)))) \<noteq>
            replay ap t x (trace (snd (updateAndGetTree s)))"
    using assms by (simp add: updateAndGetTree_Some replay_append replay_edits)
next
  assume "tree s1 = None"
  then show "edits (snd (tryParseSync P a s1)) = edits s1"
    using tryParseSync_without_tree [of s1 P a] by blast
next
  assume "tree s1 = None"
  then show "\<exists>r. trace (snd (tryParseSync P a s1)) =
               trace s1 @
               [ParserParse TryParseSync
                  \<lparr>timeout = (if a then 10000 else timeoutMicros s1), reader_model = model s1,
                   oldTree = None\<rparr> r]"
    using tryParseSync_without_tree [of s1 P a] by blast
qed

theorem updateAndGetTree_applies_in_order_witness:
  "tree twice_edited_engine = Some 0 \<and>
   edits twice_edited_engine = [mk_edit ''xxa=1;'' insert_xx, mk_edit ''xxa=;'' delete_1] \<and>
   fst (updateAndGetTree twice_edited_engine) = Some 0 \<and>
   edits (snd (updateAndGetTree twice_edited_engine)) = [] \<and>
   trace (snd (updateAndGetTree twice_edited_engine)) =
     trace twice_edited_engine @
     [TreeEdit 0 (mk_edit ''xxa=1;'' insert_xx), TreeEdit 0 (mk_edit ''xxa=;'' delete_1)] \<and>
   edits (snd (tryParseSync always_completes True twice_edited_engine)) = [] \<and>
   (\<exists>r. trace (snd (tryParseSync always_completes True twice_edited_engine)) =
      trace twice_edited_engine @
      [TreeEdit 0 (mk_edit ''xxa=1;'' insert_xx), TreeEdit 0 (mk_edit ''xxa=;'' delete_1),
       ParserParse TryParseSync
         \<lparr>timeout = 10000, reader_model = ''xxa=;'', oldTree = Some 0\<rparr> r]) \<and>
   replay move_offset 0 3 (trace (snd (updateAndGetTree twice_edited_engine))) = 4 \<and>
   rev (edits twice_edited_engine) \<noteq> edits twice_edited_engine \<and>
   trace (snd (updateAndGetTree
                 (twice_edited_engine\<lparr>edits := rev (edits twice_edited_engine)\<rparr>))) \<noteq>
     trace (snd (updateAndGetTree twice_edited_engine)) \<and>
   foldl move_offset 3 (rev (edits twice_edited_engine)) = 5 \<and>
   replay move_offset 0 3
     (trace (snd (updateAndGetTree
                    (twice_edited_engine\<lparr>edits := rev (edits twice_edited_engine)\<rparr>)))) \<noteq>
     replay move_offset 0 3 (trace (snd (updateAndGetTree twice_edited_engine))) \<and>
   tree unparsed_engine = None \<and>
   edits (snd (tryParseSync always_completes True unparsed_engine)) =
     [mk_edit ''a=12;'' change_1_to_12]"
proof -
  have h: "tree twice_edited_engine = Some 0"
    by (rule twice_edited_engine_fields)
  have n: "tree unparsed_engine = None"
    by (rule unparsed_engine_fields)
  have r0: "replay move_offset 0 3 (trace twice_edited_engine) = 3"
    by (simp add: twice_edited_engine_fields)
  note inst = updateAndGetTree_applies_in_order
                [OF h, where P = always_completes and a = True and ap = move_offset
                 and x = 3 and ?s1.0 = unparsed_engine]
  from inst have d:
    "rev (edits twice_edited_engine) \<noteq> edits twice_edited_engine \<longrightarrow>
     trace (snd (updateAndGetTree
                   (twice_edited_engine\<lparr>edits := rev (edits twice_edited_engine)\<rparr>))) \<noteq>
     trace (snd (updateAndGetTree twice_edited_engine))"
    by blast
  from inst have e:
    "foldl move_offset (replay move_offset 0 3 (trace twice_edited_engine))
       (rev (edits twice_edited_engine)) \<noteq>
     foldl move_offset (replay move_offset 0 3 (trace twice_edited_engine))
       (edits twice_edited_engine) \<longrightarrow>
     replay move_offset 0 3
       (trace (snd (updateAndGetTree
                      (twice_edited_engine\<lparr>edits := rev (edits twice_edited_engine)\<rparr>)))) \<noteq>
     replay move_offset 0 3 (trace (snd (updateAndGetTree twice_edited_engine)))"
    by blast
  from inst have f:
    "updateAndGetTree twice_edited_engine =
       (Some 0, twice_edited_engine
          \<lparr>trace := trace twice_edited_engine @ map (TreeEdit 0) (edits twice_edited_engine),
           edits := []\<rparr>)"
    "edits (snd (tryParseSync always_completes True twice_edited_engine)) = []"
    "\<exists>r. trace (snd (tryParseSync always_completes True twice_edited_engine)) =
       trace twice_edited_engine @ map (TreeEdit 0) (edits twice_edited_engine) @
       [ParserParse TryParseSync
          \<lparr>timeout = (if True then 10000 else timeoutMicros twice_edited_engine),
           reader_model = model twice_edited_engine, oldTree = Some 0\<rparr> r]"
    "replay move_offset 0 3 (trace (snd (updateAndGetTree twice_edited_engine))) =
       foldl move_offset (replay move_offset 0 3 (trace twice_edited_engine))
         (edits twice_edited_engine)"
    by blast+
  from inst n have g:
    "edits (snd (tryParseSync always_completes True unparsed_engine)) = edits unparsed_engine"
    by blast
  have c1: "fst (updateAndGetTree twice_edited_engine) = Some 0"
    by (simp add: f(1))
  have c2: "edits (snd (updateAndGetTree twice_edited_engine)) = []"
    by (simp add: f(1))
  have c3: "trace (snd (updateAndGetTree twice_edited_engine)) =
     trace twice_edited_engine @
     [TreeEdit 0 (mk_edit ''xxa=1;'' insert_xx), TreeEdit 0 (mk_edit ''xxa=;'' delete_1)]"
    by (simp add: f(1) twice_edited_engine_fields(2))
  have c4: "\<exists>r. trace (snd (tryParseSync always_completes True twice_edited_engine)) =
      trace twice_edited_engine @
      [TreeEdit 0 (mk_edit ''xxa=1;'' insert_xx), TreeEdit 0 (mk_edit ''xxa=;'' delete_1),
       ParserParse TryParseSync
         \<lparr>timeout = 10000, reader_model = ''xxa=;'', oldTree = Some 0\<rparr> r]"
    using f(3) by (simp add: twice_edited_engine_fields(2,3))
  have c5: "replay move_offset 0 3 (trace (snd (updateAndGetTree twice_edited_engine))) = 4"
    by (simp only: f(4) r0 twice_edited_engine_fields(6))
  have c6: "rev (edits twice_edited_engine) \<noteq> edits twice_edited_engine"
    by (rule twice_edited_engine_fields)
  have c7: "foldl move_offset 3 (rev (edits twice_edited_engine)) = 5"
    by (rule twice_edited_engine_fields)
  have c8: "replay move_offset 0 3
     (trace (snd (updateAndGetTree
                    (twice_edited_engine\<lparr>edits := rev (edits twice_edited_engine)\<rparr>)))) \<noteq>
     replay move_offset 0 3 (trace (snd (updateAndGetTree twice_edited_engine)))"
    using e by (simp only: r0 c7 twice_edited_engine_fields(6)) simp
  have c9: "edits (snd (tryParseSync always_completes True unparsed_engine)) =
     [mk_edit ''a=12;'' change_1_to_12]"
    by (simp only: g unparsed_engine_fields(2))
  from h twice_edited_engine_fields(2) c1 c2 c3 f(2) c4 c5 c6 d c7 c8 n c9
  show ?thesis
    by blast
qed

section \<open>The first parse leaves the buffered edits in place\<close>

lemma first_parse_then_further_pass:
  assumes "changes \<noteq> []" and "P 0 10000 (retrieveTextAtPosition m') None = Completes"
  shows "\<exists>s' r. run P [Script [ChangeContent m' changes]] (new_TreeSitterTree m) = Some s' \<and>
     trace s' =
        [ParserParse TryParseSync
           \<lparr>timeout = 10000, reader_model = m', oldTree = None\<rparr> (Inr 0)]
        @ map (TreeEdit 0) (map (mk_edit m') changes) @
        [ParserParse TryParseSync
           \<lparr>timeout = 10000, reader_model = m', oldTree = Some 0\<rparr> r] \<and>
     edits s' = []"
proof (cases "P (Suc 0) 10000 (retrieveTextAtPosition m') (Some 0)")
  case Completes
  with assms show ?thesis
    by (simp add: machine_defs edit_all_eq registerTreeEdits_eq drain_cons drain_nil
          new_TreeSitterTree_def empty_state_def)
next
  case (Raises e)
  with assms show ?thesis
    by (simp add: machine_defs edit_all_eq registerTreeEdits_eq drain_cons drain_nil
          new_TreeSitterTree_def empty_state_def)
qed

lemma first_fallback_then_further_pass:
  assumes "changes \<noteq> []" and "P 0 10000 (retrieveTextAtPosition m) None = Raises e"
    and "P 1 (remaining * 1000) (retrieveTextAtPosition m) None = Completes"
  shows "\<exists>s' r. run P [Script [], Script [ChangeContent m' changes], Idle remaining]
                  (new_TreeSitterTree m) = Some s' \<and>
     trace s' =
        [ParserParse TryParseSync
           \<lparr>timeout = 10000, reader_model = m, oldTree = None\<rparr> (Inl e),
         ParserParse ParseAsync
           \<lparr>timeout = remaining * 1000, reader_model = m, oldTree = None\<rparr> (Inr 0)]
        @ map (TreeEdit 0) (map (mk_edit m') changes) @
        [ParserParse TryParseSync
           \<lparr>timeout = 10000, reader_model = m', oldTree = Some 0\<rparr> r] \<and>
     edits s' = []"
proof (cases "P (Suc (Suc 0)) 10000 (retrieveTextAtPosition m') (Some 0)")
  case Completes
  with assms show ?thesis
    by (simp add: machine_defs edit_all_eq registerTreeEdits_eq drain_cons drain_nil
          new_TreeSitterTree_def empty_state_def)
next
  case (Raises e)
  with assms show ?thesis
    by (simp add: machine_defs edit_all_eq registerTreeEdits_eq drain_cons drain_nil
          new_TreeSitterTree_def empty_state_def)
qed

text \<open>
  C10. If no current tree exists when a parse is performed, \<open>updateAndGetTree\<close> returns
  \<open>undefined\<close> and changes nothing: \<open>_tryParseSync\<close> invokes the parser with no baseline
  and the edit buffer is as before. The buffer is emptied only where a tree exists and
  the edits have been applied to it. So when the engine's first parse runs with edits
  buffered (the document changed in the task that ran the constructor, or during the
  first parse's fallback), the parse that produces the first tree is followed by a
  further pass that applies the buffered edits to that tree and invokes the parser
  again with it as baseline.
\<close>

theorem first_parse_leaves_edits_buffered:
  "(tree s = None \<longrightarrow> updateAndGetTree s = (None, s)) \<and>
   (tree s = None \<longrightarrow>
      edits (snd (tryParseSync P a s)) = edits s \<and>
      (\<exists>r. trace (snd (tryParseSync P a s)) = trace s @
          [ParserParse TryParseSync
             \<lparr>timeout = (if a then 10000 else timeoutMicros s), reader_model = model s,
              oldTree = None\<rparr> r])) \<and>
   (\<forall>t. tree s = Some t \<longrightarrow>
      updateAndGetTree s =
        (Some t, s\<lparr>trace := trace s @ map (TreeEdit t) (edits s), edits := []\<rparr>)) \<and>
   (changes \<noteq> [] \<and> P 0 10000 (retrieveTextAtPosition m') None = Completes \<longrightarrow>
      (\<exists>s' r. run P [Script [ChangeContent m' changes]] (new_TreeSitterTree m) = Some s' \<and>
         trace s' =
           [ParserParse TryParseSync
              \<lparr>timeout = 10000, reader_model = m', oldTree = None\<rparr> (Inr 0)]
           @ map (TreeEdit 0) (map (mk_edit m') changes) @
           [ParserParse TryParseSync
              \<lparr>timeout = 10000, reader_model = m', oldTree = Some 0\<rparr> r] \<and>
         edits s' = [])) \<and>
   (changes \<noteq> [] \<and> P 0 10000 (retrieveTextAtPosition m) None = Raises e \<and>
    P 1 (remaining * 1000) (retrieveTextAtPosition m) None = Completes \<longrightarrow>
      (\<exists>s' r. run P [Script [], Script [ChangeContent m' changes], Idle remaining]
                 (new_TreeSitterTree m) = Some s' \<and>
         trace s' =
           [ParserParse TryParseSync
              \<lparr>timeout = 10000, reader_model = m, oldTree = None\<rparr> (Inl e),
            ParserParse ParseAsync
              \<lparr>timeout = remaining * 1000, reader_model = m, oldTree = None\<rparr> (Inr 0)]
           @ map (TreeEdit 0) (map (mk_edit m') changes) @
           [ParserParse TryParseSync
              \<lparr>timeout = 10000, reader_model = m', oldTree = Some 0\<rparr> r] \<and>
         edits s' = []))"
proof (intro conjI impI allI)
  assume "tree s = None"
  then show "updateAndGetTree s = (None, s)"
    by (simp add: updateAndGetTree_def)
next
  assume "tree s = None"
  then show "edits (snd (tryParseSync P a s)) = edits s"
    using tryParseSync_without_tree by blast
next
  assume "tree s = None"
  then show "\<exists>r. trace (snd (tryParseSync P a s)) = trace s @
          [ParserParse TryParseSync
             \<lparr>timeout = (if a then 10000 else timeoutMicros s), reader_model = model s,
              oldTree = None\<rparr> r]"
    using tryParseSync_without_tree by blast
next
  fix t
  assume "tree s = Some t"
  then show "updateAndGetTree s =
        (Some t, s\<lparr>trace := trace s @ map (TreeEdit t) (edits s), edits := []\<rparr>)"
    by (rule updateAndGetTree_Some)
next
  assume "changes \<noteq> [] \<and> P 0 10000 (retrieveTextAtPosition m') None = Completes"
  then show "\<exists>s' r. run P [Script [ChangeContent m' changes]] (new_TreeSitterTree m) = Some s' \<and>
         trace s' =
           [ParserParse TryParseSync
              \<lparr>timeout = 10000, reader_model = m', oldTree = None\<rparr> (Inr 0)]
           @ map (TreeEdit 0) (map (mk_edit m') changes) @
           [ParserParse TryParseSync
              \<lparr>timeout = 10000, reader_model = m', oldTree = Some 0\<rparr> r] \<and>
         edits s' = []"
    using first_parse_then_further_pass by blast
next
  assume "changes \<noteq> [] \<and> P 0 10000 (retrieveTextAtPosition m) None = Raises e \<and>
    P 1 (remaining * 1000) (retrieveTextAtPosition m) None = Completes"
  then show "\<exists>s' r. run P [Script [], Script [ChangeContent m' changes], Idle remaining]
                 (new_TreeSitterTree m) = Some s' \<and>
         trace s' =
           [ParserParse TryParseSync
              \<lparr>timeout = 10000, reader_model = m, oldTree = None\<rparr> (Inl e),
            ParserParse ParseAsync
              \<lparr>timeout = remaining * 1000, reader_model = m, oldTree = None\<rparr> (Inr 0)]
           @ map (TreeEdit 0) (map (mk_edit m') changes) @
           [ParserParse TryParseSync
              \<lparr>timeout = 10000, reader_model = m', oldTree = Some 0\<rparr> r] \<and>
         edits s' = []"
    using first_fallback_then_further_pass by blast
qed

theorem first_parse_leaves_edits_buffered_witness:
  "tree unparsed_engine = None \<and>
   updateAndGetTree unparsed_engine = (None, unparsed_engine) \<and>
   edits (snd (tryParseSync always_completes True unparsed_engine)) =
     [mk_edit ''a=12;'' change_1_to_12] \<and>
   tree edited_engine = Some 0 \<and>
   edits (snd (updateAndGetTree edited_engine)) = [] \<and>
   [change_1_to_12] \<noteq> [] \<and>
   always_completes 0 10000 (retrieveTextAtPosition ''a=12;'') None = Completes \<and>
   (\<exists>s' r. run always_completes [Script [ChangeContent ''a=12;'' [change_1_to_12]]]
              (new_TreeSitterTree ''a=1;'') = Some s' \<and>
      trace s' =
        [ParserParse TryParseSync
           \<lparr>timeout = 10000, reader_model = ''a=12;'', oldTree = None\<rparr> (Inr 0),
         TreeEdit 0 (mk_edit ''a=12;'' change_1_to_12),
         ParserParse TryParseSync
           \<lparr>timeout = 10000, reader_model = ''a=12;'', oldTree = Some 0\<rparr> r] \<and>
      edits s' = []) \<and>
   times_out_at [0] 0 10000 (retrieveTextAtPosition ''a=1;'') None = Raises TimeBudgetExceeded \<and>
   times_out_at [0] 1 (7 * 1000) (retrieveTextAtPosition ''a=1;'') None = Completes \<and>
   (\<exists>s' r. run (times_out_at [0])
              [Script [], Script [ChangeContent ''a=12;'' [change_1_to_12]], Idle 7]
              (new_TreeSitterTree ''a=1;'') = Some s' \<and>
      trace s' =
        [ParserParse TryParseSync
           \<lparr>timeout = 10000, reader_model = ''a=1;'', oldTree = None\<rparr>
           (Inl TimeBudgetExceeded),
         ParserParse ParseAsync
           \<lparr>timeout = 7 * 1000, reader_model = ''a=1;'', oldTree = None\<rparr> (Inr 0),
         TreeEdit 0 (mk_edit ''a=12;'' change_1_to_12),
         ParserParse TryParseSync
           \<lparr>timeout = 10000, reader_model = ''a=12;'', oldTree = Some 0\<rparr> r] \<and>
      edits s' = [])"
proof -
  have h1: "tree unparsed_engine = None"
    by (rule unparsed_engine_fields)
  have h2: "tree edited_engine = Some 0"
    by (rule edited_engine_fields)
  have h3: "[change_1_to_12] \<noteq> [] \<and>
            always_completes 0 10000 (retrieveTextAtPosition ''a=12;'') None = Completes"
    by (simp add: always_completes_def)
  have h4: "[change_1_to_12] \<noteq> [] \<and>
     times_out_at [0] 0 10000 (retrieveTextAtPosition ''a=1;'') None =
       Raises TimeBudgetExceeded \<and>
     times_out_at [0] 1 (7 * 1000) (retrieveTextAtPosition ''a=1;'') None = Completes"
    by (simp add: times_out_at_def)
  note a = first_parse_leaves_edits_buffered
             [of unparsed_engine always_completes True "[change_1_to_12]" "''a=12;''"
                 "''a=1;''" TimeBudgetExceeded 7]
  note b = first_parse_leaves_edits_buffered
             [of edited_engine "times_out_at [0]" True "[change_1_to_12]" "''a=12;''"
                 "''a=1;''" TimeBudgetExceeded 7]
  from a h1 have c1: "updateAndGetTree unparsed_engine = (None, unparsed_engine)"
    and c2: "edits (snd (tryParseSync always_completes True unparsed_engine)) =
               edits unparsed_engine"
    by blast+
  from a h3 have c3: "\<exists>s' r. run always_completes [Script [ChangeContent ''a=12;'' [change_1_to_12]]]
              (new_TreeSitterTree ''a=1;'') = Some s' \<and>
      trace s' =
        [ParserParse TryParseSync
           \<lparr>timeout = 10000, reader_model = ''a=12;'', oldTree = None\<rparr> (Inr 0)]
        @ map (TreeEdit 0) (map (mk_edit ''a=12;'') [change_1_to_12]) @
        [ParserParse TryParseSync
           \<lparr>timeout = 10000, reader_model = ''a=12;'', oldTree = Some 0\<rparr> r] \<and>
      edits s' = []"
    by blast
  from b h2 have c4: "edits (snd (updateAndGetTree edited_engine)) = []"
    by simp
  from b h4 have c5: "\<exists>s' r. run (times_out_at [0])
              [Script [], Script [ChangeContent ''a=12;'' [change_1_to_12]], Idle 7]
              (new_TreeSitterTree ''a=1;'') = Some s' \<and>
      trace s' =
        [ParserParse TryParseSync
           \<lparr>timeout = 10000, reader_model = ''a=1;'', oldTree = None\<rparr>
           (Inl TimeBudgetExceeded),
         ParserParse ParseAsync
           \<lparr>timeout = 7 * 1000, reader_model = ''a=1;'', oldTree = None\<rparr> (Inr 0)]
        @ map (TreeEdit 0) (map (mk_edit ''a=12;'') [change_1_to_12]) @
        [ParserParse TryParseSync
           \<lparr>timeout = 10000, reader_model = ''a=12;'', oldTree = Some 0\<rparr> r] \<and>
      edits s' = []"
    by blast
  from h1 h2 h3 h4 c1 c2 c3 c4 c5 show ?thesis
    by (simp add: unparsed_engine_fields)
qed

section \<open>Synchronous mode and the time budget\<close>

text \<open>
  C3 does not hold of the code: \<open>_tryParseSync\<close> sets the budget when \<open>asynchronous\<close> is
  true and never clears it. The engine is constructed on \<open>a=1;\<close>; the constructor's
  \<open>parseTree()\<close> sets the budget to 10000 microseconds. The document then changes to
  twelve characters and \<open>parseTree(false)\<close> is called: the parser is invoked with the
  budget of 10000 still in effect and, needing 1000 microseconds per character, raises
  on time. With no budget in effect the same call would have completed.
\<close>

theorem sync_parse_inherits_budget:
  "map_option trace
     (run (budget_parser 1000)
        [Script [],
         Script [ChangeContent ''a=123456789;'' [change_1_to_123456789], ParseTree False]]
        (new_TreeSitterTree ''a=1;'')) =
   Some [ParserParse TryParseSync
           \<lparr>timeout = 10000, reader_model = ''a=1;'', oldTree = None\<rparr> (Inr 0),
         TreeEdit 0 (mk_edit ''a=123456789;'' change_1_to_123456789),
         ParserParse TryParseSync
           \<lparr>timeout = 10000, reader_model = ''a=123456789;'', oldTree = Some 0\<rparr>
           (Inl TimeBudgetExceeded)] \<and>
   budget_parser 1000 1 0 (retrieveTextAtPosition ''a=123456789;'') (Some 0) = Completes"
  by code_simp

section \<open>The cache hit\<close>














section \<open>Edits registered during a fallback\<close>

text \<open>
  C1 does not hold of the code. The engine holds tree 0 of \<open>a=1;\<close> and the buffered edit
  to \<open>a=12;\<close>. \<open>parseTree()\<close> is called (promise 3); its synchronous attempt times out
  and the fallback starts on a snapshot of \<open>a=12;\<close>. While it is in progress the
  document changes to \<open>a=123;\<close>. The idle slice then produces tree 1 from the snapshot.
  The callback of lines 75-84 starts a further pass, which applies the new edit to tree 1
  and produces tree 2 from the live document; but \<open>_parseTree\<close> returned the operation
  itself (line 86), so the caller's promise is fulfilled with tree 1, the tree parsed
  from the text before the edit. When the further synchronous attempt also times out,
  the caller's promise is fulfilled with tree 1 while the parse that folds the edit in
  is still waiting for an idle slice.
\<close>

theorem caller_receives_fallback_tree:
  "map_option callers edit_during_fallback = Some [3] \<and>
   map_option (\<lambda>s. settled s 3) edit_during_fallback = Some (Some (VTree 1)) \<and>
   map_option tree edit_during_fallback = Some (Some 2) \<and>
   map_option trace edit_during_fallback =
     Some [ParserParse TryParseSync
             \<lparr>timeout = 10000, reader_model = ''a=1;'', oldTree = None\<rparr> (Inr 0),
           TreeEdit 0 (mk_edit ''a=12;'' change_1_to_12),
           ParserParse TryParseSync
             \<lparr>timeout = 10000, reader_model = ''a=12;'', oldTree = Some 0\<rparr>
             (Inl TimeBudgetExceeded),
           ParserParse ParseAsync
             \<lparr>timeout = 7000, reader_model = ''a=12;'', oldTree = Some 0\<rparr> (Inr 1),
           TreeEdit 1 (mk_edit ''a=123;'' insert_3),
           ParserParse TryParseSync
             \<lparr>timeout = 10000, reader_model = ''a=123;'', oldTree = Some 1\<rparr> (Inr 2)] \<and>
   map_option (\<lambda>s. settled s 3) edit_during_fallback_twice = Some (Some (VTree 1)) \<and>
   map_option tree edit_during_fallback_twice = Some (Some 1) \<and>
   map_option idleQueue edit_during_fallback_twice =
     Some [\<lparr>cb_textModel = ''a=123;'', cb_tree = Some 1, cb_promise = 11\<rparr>] \<and>
   map_option (\<lambda>s. last (trace s)) edit_during_fallback_twice =
     Some (ParserParse TryParseSync
             \<lparr>timeout = 10000, reader_model = ''a=123;'', oldTree = Some 1\<rparr>
             (Inl TimeBudgetExceeded))"
  by code_simp

section \<open>Two calls issued before either resolves\<close>

text \<open>
  C8 does not hold of the code: a call that is issued before the first call has passed
  its own \<open>await\<close> finds \<open>_currentParseOperation\<close> undefined and waits for nothing.
  The constructor calls \<open>parseTree()\<close> (promise 0) and \<open>parseTree()\<close> is called again
  in the same task (promise 2). The first call's synchronous attempt times out and its
  fallback is waiting for an idle slice when the second call invokes the parser a second
  time and is answered, the first call still pending. On an engine that holds tree 0
  and a buffered edit, of two calls in one task (promises 3 and 5) the first drains the
  buffer and falls back, and the second is answered at once with tree 0, the tree from
  before the edit, while the first is pending.
\<close>

theorem second_call_does_not_wait:
  "map_option trace call_after_constructor =
     Some [ParserParse TryParseSync
             \<lparr>timeout = 10000, reader_model = ''a=1;'', oldTree = None\<rparr>
             (Inl TimeBudgetExceeded),
           ParserParse TryParseSync
             \<lparr>timeout = 10000, reader_model = ''a=1;'', oldTree = None\<rparr> (Inr 0)] \<and>
   map_option idleQueue call_after_constructor =
     Some [\<lparr>cb_textModel = ''a=1;'', cb_tree = None, cb_promise = 6\<rparr>] \<and>
   map_option callers call_after_constructor = Some [2] \<and>
   map_option (\<lambda>s. settled s 0) call_after_constructor = Some None \<and>
   map_option (\<lambda>s. settled s 2) call_after_constructor = Some (Some (VTree 0)) \<and>
   map_option callers two_calls_one_task = Some [3, 5] \<and>
   map_option (\<lambda>s. settled s 3) two_calls_one_task = Some None \<and>
   map_option (\<lambda>s. settled s 5) two_calls_one_task = Some (Some (VTree 0)) \<and>
   map_option idleQueue two_calls_one_task =
     Some [\<lparr>cb_textModel = ''a=12;'', cb_tree = Some 0, cb_promise = 9\<rparr>] \<and>
   map_option trace two_calls_one_task =
     Some [ParserParse TryParseSync
             \<lparr>timeout = 10000, reader_model = ''a=1;'', oldTree = None\<rparr> (Inr 0),
           TreeEdit 0 (mk_edit ''a=12;'' change_1_to_12),
           ParserParse TryParseSync
             \<lparr>timeout = 10000, reader_model = ''a=12;'', oldTree = Some 0\<rparr>
             (Inl TimeBudgetExceeded)]"
  by code_simp

section \<open>The fallback loop\<close>

lemma run_append:
  "run P (xs @ ys) s = (case run P xs s of None \<Rightarrow> None | Some s1 \<Rightarrow> run P ys s1)"
  by (induction xs arbitrary: s) (simp_all split: option.splits)

text \<open>A call whose synchronous attempt raises starts the fallback.\<close>

lemma start_fallback:
  assumes "microtasks s = []" and "currentParseOperation s = None" and "idleQueue s = []"
    and "tree s = Some t" and "edits s \<noteq> []"
    and "P (nParses s) (if a then 10000 else timeoutMicros s)
           (retrieveTextAtPosition (model s)) (Some t) = Raises e0"
  shows "\<exists>s1. run P [Script [ParseTree a]] s = Some s1 \<and>
     in_fallback a (nextPromise s) [] 0 (model s) (Some t) s1 \<and>
     nParses s1 = Suc (nParses s) \<and> nextTree s1 = nextTree s \<and> tree s1 = Some t \<and>
     callers s1 = callers s @ [nextPromise s] \<and>
     trace s1 = trace s @ map (TreeEdit t) (edits s) @
       [ParserParse TryParseSync
          \<lparr>timeout = (if a then 10000 else timeoutMicros s), reader_model = model s,
           oldTree = Some t\<rparr> (Inl e0)]"
  using assms
  by (cases a)
     (simp_all add: machine_defs edit_all_eq drain_cons drain_nil in_fallback_def
        eval_nat_numeral)

lemma start_fallback_constructor:
  assumes "P 0 10000 (retrieveTextAtPosition m) None = Raises e0"
  shows "\<exists>s1. run P [Script []] (new_TreeSitterTree m) = Some s1 \<and>
     in_fallback True 0 [K_then31] 0 m None s1 \<and>
     nParses s1 = 1 \<and> nextTree s1 = 0 \<and> tree s1 = None \<and>
     trace s1 =
       [ParserParse TryParseSync
          \<lparr>timeout = 10000, reader_model = m, oldTree = None\<rparr> (Inl e0)]"
  using assms
  by (simp add: machine_defs edit_all_eq drain_cons drain_nil in_fallback_def
        eval_nat_numeral new_TreeSitterTree_def empty_state_def)

text \<open>A slice in which the parser raises schedules the next slice and changes nothing else.\<close>

lemma slice_fails:
  assumes "in_fallback a b rs0 j tm t u"
    and "P (nParses u) (r * 1000) (retrieveTextAtPosition tm) t = Raises e"
  shows "\<exists>u'. step P (Idle r) u = Some u' \<and> in_fallback a b rs0 (Suc j) tm t u' \<and>
     nParses u' = Suc (nParses u) \<and> nextTree u' = nextTree u \<and> tree u' = tree u \<and>
     callers u' = callers u \<and>
     trace u' = trace u @
       [ParserParse ParseAsync
          \<lparr>timeout = r * 1000, reader_model = tm, oldTree = t\<rparr> (Inl e)]"
  using assms
  by (auto simp add: machine_defs drain_nil in_fallback_def less_Suc_eq)

lemma slices_fail:
  assumes "in_fallback a b rs0 j tm t u"
    and "\<forall>i<length fs. P (nParses u + i) (fst (fs ! i) * 1000)
            (retrieveTextAtPosition tm) t = Raises (snd (fs ! i))"
  shows "\<exists>u'. run P (map (\<lambda>f. Idle (fst f)) fs) u = Some u' \<and>
     in_fallback a b rs0 (j + length fs) tm t u' \<and>
     nParses u' = nParses u + length fs \<and> nextTree u' = nextTree u \<and> tree u' = tree u \<and>
     callers u' = callers u \<and>
     trace u' = trace u @ map (failed_slice tm t) fs"
  using assms
proof (induction fs arbitrary: u j)
  case Nil
  then show ?case by simp
next
  case (Cons f fs)
  from Cons.prems(2)
  have first: "P (nParses u) (fst f * 1000) (retrieveTextAtPosition tm) t = Raises (snd f)"
    by force
  from slice_fails [where P = P and r = "fst f" and e = "snd f", OF Cons.prems(1) first]
  obtain u1 where u1: "step P (Idle (fst f)) u = Some u1"
      "in_fallback a b rs0 (Suc j) tm t u1"
      "nParses u1 = Suc (nParses u)" "nextTree u1 = nextTree u" "tree u1 = tree u"
      "callers u1 = callers u"
      "trace u1 = trace u @
         [ParserParse ParseAsync
            \<lparr>timeout = fst f * 1000, reader_model = tm, oldTree = t\<rparr> (Inl (snd f))]"
    by blast
  have rest: "\<forall>i<length fs. P (nParses u1 + i) (fst (fs ! i) * 1000)
                (retrieveTextAtPosition tm) t = Raises (snd (fs ! i))"
  proof (intro allI impI)
    fix i
    assume "i < length fs"
    then have "Suc i < length (f # fs)"
      by simp
    from Cons.prems(2) [rule_format, OF this]
    show "P (nParses u1 + i) (fst (fs ! i) * 1000) (retrieveTextAtPosition tm) t =
            Raises (snd (fs ! i))"
      by (simp add: u1(3))
  qed
  from Cons.IH [OF u1(2) rest]
  obtain u' where u': "run P (map (\<lambda>f. Idle (fst f)) fs) u1 = Some u'"
      "in_fallback a b rs0 (Suc j + length fs) tm t u'"
      "nParses u' = nParses u1 + length fs" "nextTree u' = nextTree u1" "tree u' = tree u1"
      "callers u' = callers u1"
      "trace u' = trace u1 @ map (failed_slice tm t) fs"
    by blast
  show ?case
    using u1 u' by (auto simp add: failed_slice_def)
qed

text \<open>
  When a slice completes, the promises of the failed slices are fulfilled one after the
  other, newest first, each by the callback of lines 156-158.
\<close>

lemma unwind_chain:
  assumes "microtasks u = []"
    and "\<forall>i<j. promises u (Suc (c + i)) = Pending [K_then156 (c + i)]"
  shows "drain P (resolve (c + j) (VTree T) u) =
         drain P (resolve c (VTree T)
           (u\<lparr>promises :=
                (\<lambda>x. if c < x \<and> x \<le> c + j then Fulfilled (VTree T) else promises u x)\<rparr>))"
  using assms
proof (induction j arbitrary: u)
  case 0
  have "(\<lambda>x. if c < x \<and> x \<le> c + 0 then Fulfilled (VTree T) else promises u x) = promises u"
    by (rule ext) auto
  then show ?case by simp
next
  case (Suc j)
  let ?v = "VTree T"
  let ?u1 = "u\<lparr>promises := (promises u)(Suc (c + j) := Fulfilled ?v), microtasks := []\<rparr>"
  have top: "promises u (Suc (c + j)) = Pending [K_then156 (c + j)]"
    using Suc.prems(2) by simp
  have r1: "resolve (c + Suc j) ?v u =
      u\<lparr>promises := (promises u)(Suc (c + j) := Fulfilled ?v),
        microtasks := [ReactionJob (K_then156 (c + j)) ?v]\<rparr>"
    using top Suc.prems(1) by (simp add: resolve_def fulfill_def)
  have "drain P (resolve (c + Suc j) ?v u) = drain P (resolve (c + j) ?v ?u1)"
    unfolding r1
    by (subst drain_cons [where j = "ReactionJob (K_then156 (c + j)) ?v" and js = "[]"])
       simp_all
  also have "\<dots> = drain P (resolve c ?v
      (?u1\<lparr>promises :=
             (\<lambda>x. if c < x \<and> x \<le> c + j then Fulfilled ?v else promises ?u1 x)\<rparr>))"
  proof (rule Suc.IH)
    show "microtasks ?u1 = []"
      by simp
    show "\<forall>i<j. promises ?u1 (Suc (c + i)) = Pending [K_then156 (c + i)]"
      using Suc.prems(2) by simp
  qed
  also have "?u1\<lparr>promises :=
                 (\<lambda>x. if c < x \<and> x \<le> c + j then Fulfilled ?v else promises ?u1 x)\<rparr> =
     u\<lparr>promises := (\<lambda>x. if c < x \<and> x \<le> c + Suc j then Fulfilled ?v else promises u x)\<rparr>"
  proof -
    have f: "(\<lambda>x. if c < x \<and> x \<le> c + j then Fulfilled ?v else promises ?u1 x) =
          (\<lambda>x. if c < x \<and> x \<le> c + Suc j then Fulfilled ?v else promises u x)"
      by (rule ext) auto
    have eq0: "u\<lparr>microtasks := []\<rparr> = u"
      by (simp add: Suc.prems(1) [symmetric])
    have "?u1 = (u\<lparr>microtasks := []\<rparr>)\<lparr>promises := (promises u)(Suc (c + j) := Fulfilled ?v)\<rparr>"
      by simp
    also have "\<dots> = u\<lparr>promises := (promises u)(Suc (c + j) := Fulfilled ?v)\<rparr>"
      by (simp only: eq0)
    finally have "?u1 = u\<lparr>promises := (promises u)(Suc (c + j) := Fulfilled ?v)\<rparr>" .
    then show ?thesis
      using f by simp
  qed
  finally show ?case .
qed

text \<open>The slice in which the parser completes settles the call.\<close>

lemma slice_completes:
  assumes "in_fallback a b rs0 j tm t u" and "rs0 = [] \<or> rs0 = [K_then31]"
    and "P (nParses u) (r * 1000) (retrieveTextAtPosition tm) t = Completes"
  shows "\<exists>u'. step P (Idle r) u = Some u' \<and>
     settled u' b = Some (VTree (nextTree u)) \<and> tree u' = Some (nextTree u) \<and>
     idleQueue u' = [] \<and> microtasks u' = [] \<and> currentParseOperation u' = None \<and>
     nParses u' = Suc (nParses u) \<and> callers u' = callers u \<and>
     trace u' = trace u @
       [ParserParse ParseAsync
          \<lparr>timeout = r * 1000, reader_model = tm, oldTree = t\<rparr> (Inr (nextTree u))]"
proof -
  let ?T = "nextTree u"
  let ?u2 = "u\<lparr>idleQueue := [], timeoutMicros := r * 1000, nextTree := Suc ?T,
               nParses := Suc (nParses u),
               trace := trace u @
                 [ParserParse ParseAsync
                    \<lparr>timeout = r * 1000, reader_model = tm, oldTree = t\<rparr> (Inr ?T)],
               tree := Some ?T\<rparr>"
  have ev: "do_event P (Idle r) u = resolve (b + 4 + j) (VTree ?T) ?u2"
    using assms
    by (simp add: in_fallback_def idle_slice_def parser_parse_def setTimeoutMicros_def)
  have chain: "\<forall>i<j. promises ?u2 (Suc (b + 4 + i)) = Pending [K_then156 (b + 4 + i)]"
    using assms(1) by (simp add: in_fallback_def eval_nat_numeral)
  have mt: "microtasks ?u2 = []"
    using assms(1) by (simp add: in_fallback_def)
  let ?u3 = "?u2\<lparr>promises :=
                 (\<lambda>x. if b + 4 < x \<and> x \<le> b + 4 + j then Fulfilled (VTree ?T)
                      else promises ?u2 x)\<rparr>"
  have st: "step P (Idle r) u = drain P (resolve (b + 4) (VTree ?T) ?u3)"
    unfolding step_def ev using unwind_chain [OF mt chain, of P ?T] by simp
  from assms(2) show ?thesis
  proof
    assume "rs0 = []"
    with st assms(1) show ?thesis
      by (simp add: in_fallback_def machine_defs drain_cons drain_nil)
  next
    assume "rs0 = [K_then31]"
    with st assms(1) show ?thesis
      by (simp add: in_fallback_def machine_defs drain_cons drain_nil)
  qed
qed

lemma fallback_pending:
  assumes "in_fallback a b rs0 j tm t u"
  shows "settled u b = None \<and>
         idleQueue u = [\<lparr>cb_textModel = tm, cb_tree = t, cb_promise = b + 4 + j\<rparr>]"
  using assms by (simp add: in_fallback_def settled_def)

text \<open>
  C9. A call of \<open>parseTree\<close> needs a parse and its synchronous attempt raises, with
  either kind of error. Then the call starts the fallback on a snapshot of the document.
  However many idle slices follow in which the parser raises again, with either kind of
  error, the promise returned to the caller stays pending, the only calls made are one
  parser call per slice, on the snapshot and the same baseline, and one idle callback is
  waiting for the next slice. In the first slice in which the parser completes, the
  promise is fulfilled with the tree of that slice. The same holds of the constructor's
  own call of \<open>parseTree\<close>.
\<close>

theorem fallback_retries_until_a_slice_completes:
  "(microtasks s = [] \<and> currentParseOperation s = None \<and> idleQueue s = [] \<and>
    tree s = Some t \<and> edits s \<noteq> [] \<and>
    P (nParses s) (if a then 10000 else timeoutMicros s)
      (retrieveTextAtPosition (model s)) (Some t) = Raises e0 \<and>
    (\<forall>i<length fs. P (nParses s + 1 + i) (fst (fs ! i) * 1000)
       (retrieveTextAtPosition (model s)) (Some t) = Raises (snd (fs ! i))) \<longrightarrow>
    (\<exists>s1. run P (Script [ParseTree a] # map (\<lambda>f. Idle (fst f)) fs) s = Some s1 \<and>
       settled s1 (nextPromise s) = None \<and>
       idleQueue s1 =
         [\<lparr>cb_textModel = model s, cb_tree = Some t,
           cb_promise = nextPromise s + 4 + length fs\<rparr>] \<and>
       trace s1 = trace s @ map (TreeEdit t) (edits s) @
         [ParserParse TryParseSync
            \<lparr>timeout = (if a then 10000 else timeoutMicros s), reader_model = model s,
             oldTree = Some t\<rparr> (Inl e0)] @
         map (failed_slice (model s) (Some t)) fs \<and>
       (P (nParses s + 1 + length fs) (r * 1000)
          (retrieveTextAtPosition (model s)) (Some t) = Completes \<longrightarrow>
        (\<exists>s2. run P (Script [ParseTree a] # map (\<lambda>f. Idle (fst f)) fs @ [Idle r]) s = Some s2 \<and>
           settled s2 (nextPromise s) = Some (VTree (nextTree s)) \<and>
           tree s2 = Some (nextTree s) \<and> idleQueue s2 = [] \<and>
           trace s2 = trace s1 @
             [ParserParse ParseAsync
                \<lparr>timeout = r * 1000, reader_model = model s, oldTree = Some t\<rparr>
                (Inr (nextTree s))])))) \<and>
   (P 0 10000 (retrieveTextAtPosition m) None = Raises e0 \<and>
    (\<forall>i<length fs. P (1 + i) (fst (fs ! i) * 1000)
       (retrieveTextAtPosition m) None = Raises (snd (fs ! i))) \<longrightarrow>
    (\<exists>s1. run P (Script [] # map (\<lambda>f. Idle (fst f)) fs) (new_TreeSitterTree m) = Some s1 \<and>
       settled s1 0 = None \<and>
       idleQueue s1 = [\<lparr>cb_textModel = m, cb_tree = None, cb_promise = 4 + length fs\<rparr>] \<and>
       trace s1 =
         [ParserParse TryParseSync
            \<lparr>timeout = 10000, reader_model = m, oldTree = None\<rparr> (Inl e0)] @
         map (failed_slice m None) fs \<and>
       (P (1 + length fs) (r * 1000) (retrieveTextAtPosition m) None = Completes \<longrightarrow>
        (\<exists>s2. run P (Script [] # map (\<lambda>f. Idle (fst f)) fs @ [Idle r])
                  (new_TreeSitterTree m) = Some s2 \<and>
           settled s2 0 = Some (VTree 0) \<and> tree s2 = Some 0 \<and> idleQueue s2 = [] \<and>
           trace s2 = trace s1 @
             [ParserParse ParseAsync
                \<lparr>timeout = r * 1000, reader_model = m, oldTree = None\<rparr> (Inr 0)]))))"
proof (intro conjI impI)
  assume h: "microtasks s = [] \<and> currentParseOperation s = None \<and> idleQueue s = [] \<and>
    tree s = Some t \<and> edits s \<noteq> [] \<and>
    P (nParses s) (if a then 10000 else timeoutMicros s)
      (retrieveTextAtPosition (model s)) (Some t) = Raises e0 \<and>
    (\<forall>i<length fs. P (nParses s + 1 + i) (fst (fs ! i) * 1000)
       (retrieveTextAtPosition (model s)) (Some t) = Raises (snd (fs ! i)))"
  let ?b = "nextPromise s"
  let ?tr0 = "trace s @ map (TreeEdit t) (edits s) @
       [ParserParse TryParseSync
          \<lparr>timeout = (if a then 10000 else timeoutMicros s), reader_model = model s,
           oldTree = Some t\<rparr> (Inl e0)]"
  from h start_fallback [of s t P a e0]
  obtain s0 where s0: "run P [Script [ParseTree a]] s = Some s0"
      "in_fallback a ?b [] 0 (model s) (Some t) s0"
      "nParses s0 = Suc (nParses s)" "nextTree s0 = nextTree s" "trace s0 = ?tr0"
    by blast
  have fails: "\<forall>i<length fs. P (nParses s0 + i) (fst (fs ! i) * 1000)
                 (retrieveTextAtPosition (model s)) (Some t) = Raises (snd (fs ! i))"
    using h by (simp add: s0(3))
  from slices_fail [where P = P and fs = fs, OF s0(2) fails]
  obtain s1 where s1: "run P (map (\<lambda>f. Idle (fst f)) fs) s0 = Some s1"
      "in_fallback a ?b [] (0 + length fs) (model s) (Some t) s1"
      "nParses s1 = nParses s0 + length fs" "nextTree s1 = nextTree s0"
      "trace s1 = trace s0 @ map (failed_slice (model s) (Some t)) fs"
    by blast
  have r1: "run P (Script [ParseTree a] # map (\<lambda>f. Idle (fst f)) fs) s = Some s1"
    using run_append [of P "[Script [ParseTree a]]" "map (\<lambda>f. Idle (fst f)) fs" s] s0(1) s1(1)
    by simp
  have last: "P (nParses s + 1 + length fs) (r * 1000)
                (retrieveTextAtPosition (model s)) (Some t) = Completes \<longrightarrow>
        (\<exists>s2. run P (Script [ParseTree a] # map (\<lambda>f. Idle (fst f)) fs @ [Idle r]) s = Some s2 \<and>
           settled s2 ?b = Some (VTree (nextTree s)) \<and>
           tree s2 = Some (nextTree s) \<and> idleQueue s2 = [] \<and>
           trace s2 = trace s1 @
             [ParserParse ParseAsync
                \<lparr>timeout = r * 1000, reader_model = model s, oldTree = Some t\<rparr>
                (Inr (nextTree s))])"
  proof
    assume "P (nParses s + 1 + length fs) (r * 1000)
              (retrieveTextAtPosition (model s)) (Some t) = Completes"
    then have ok: "P (nParses s1) (r * 1000) (retrieveTextAtPosition (model s)) (Some t) =
                     Completes"
      by (simp add: s1(3) s0(3))
    from slice_completes [where P = P and r = r, OF s1(2) _ ok]
    obtain s2 where s2: "step P (Idle r) s1 = Some s2"
        "settled s2 ?b = Some (VTree (nextTree s1))" "tree s2 = Some (nextTree s1)"
        "idleQueue s2 = []"
        "trace s2 = trace s1 @
           [ParserParse ParseAsync
              \<lparr>timeout = r * 1000, reader_model = model s, oldTree = Some t\<rparr>
              (Inr (nextTree s1))]"
      by auto
    have "run P (Script [ParseTree a] # map (\<lambda>f. Idle (fst f)) fs @ [Idle r]) s = Some s2"
      using run_append [of P "Script [ParseTree a] # map (\<lambda>f. Idle (fst f)) fs" "[Idle r]" s]
        r1 s2(1)
      by simp
    with s2 show "\<exists>s2. run P (Script [ParseTree a] # map (\<lambda>f. Idle (fst f)) fs @ [Idle r]) s =
                     Some s2 \<and>
           settled s2 ?b = Some (VTree (nextTree s)) \<and>
           tree s2 = Some (nextTree s) \<and> idleQueue s2 = [] \<and>
           trace s2 = trace s1 @
             [ParserParse ParseAsync
                \<lparr>timeout = r * 1000, reader_model = model s, oldTree = Some t\<rparr>
                (Inr (nextTree s))]"
      by (simp add: s1(4) s0(4))
  qed
  from fallback_pending [OF s1(2)] r1 s1(5) s0(5) last
  show "\<exists>s1. run P (Script [ParseTree a] # map (\<lambda>f. Idle (fst f)) fs) s = Some s1 \<and>
       settled s1 (nextPromise s) = None \<and>
       idleQueue s1 =
         [\<lparr>cb_textModel = model s, cb_tree = Some t,
           cb_promise = nextPromise s + 4 + length fs\<rparr>] \<and>
       trace s1 = trace s @ map (TreeEdit t) (edits s) @
         [ParserParse TryParseSync
            \<lparr>timeout = (if a then 10000 else timeoutMicros s), reader_model = model s,
             oldTree = Some t\<rparr> (Inl e0)] @
         map (failed_slice (model s) (Some t)) fs \<and>
       (P (nParses s + 1 + length fs) (r * 1000)
          (retrieveTextAtPosition (model s)) (Some t) = Completes \<longrightarrow>
        (\<exists>s2. run P (Script [ParseTree a] # map (\<lambda>f. Idle (fst f)) fs @ [Idle r]) s = Some s2 \<and>
           settled s2 (nextPromise s) = Some (VTree (nextTree s)) \<and>
           tree s2 = Some (nextTree s) \<and> idleQueue s2 = [] \<and>
           trace s2 = trace s1 @
             [ParserParse ParseAsync
                \<lparr>timeout = r * 1000, reader_model = model s, oldTree = Some t\<rparr>
                (Inr (nextTree s))]))"
    by (intro exI [of _ s1]) simp
next
  assume h: "P 0 10000 (retrieveTextAtPosition m) None = Raises e0 \<and>
    (\<forall>i<length fs. P (1 + i) (fst (fs ! i) * 1000)
       (retrieveTextAtPosition m) None = Raises (snd (fs ! i)))"
  let ?tr0 = "[ParserParse TryParseSync
                 \<lparr>timeout = 10000, reader_model = m, oldTree = None\<rparr> (Inl e0)]"
  from h start_fallback_constructor [of P m e0]
  obtain s0 where s0: "run P [Script []] (new_TreeSitterTree m) = Some s0"
      "in_fallback True 0 [K_then31] 0 m None s0"
      "nParses s0 = 1" "nextTree s0 = 0" "trace s0 = ?tr0"
    by blast
  have fails: "\<forall>i<length fs. P (nParses s0 + i) (fst (fs ! i) * 1000)
                 (retrieveTextAtPosition m) None = Raises (snd (fs ! i))"
    using h by (simp add: s0(3))
  from slices_fail [where P = P and fs = fs, OF s0(2) fails]
  obtain s1 where s1: "run P (map (\<lambda>f. Idle (fst f)) fs) s0 = Some s1"
      "in_fallback True 0 [K_then31] (0 + length fs) m None s1"
      "nParses s1 = nParses s0 + length fs" "nextTree s1 = nextTree s0"
      "trace s1 = trace s0 @ map (failed_slice m None) fs"
    by blast
  have r1: "run P (Script [] # map (\<lambda>f. Idle (fst f)) fs) (new_TreeSitterTree m) = Some s1"
    using run_append [of P "[Script []]" "map (\<lambda>f. Idle (fst f)) fs" "new_TreeSitterTree m"]
      s0(1) s1(1)
    by simp
  have last: "P (1 + length fs) (r * 1000) (retrieveTextAtPosition m) None = Completes \<longrightarrow>
        (\<exists>s2. run P (Script [] # map (\<lambda>f. Idle (fst f)) fs @ [Idle r])
                  (new_TreeSitterTree m) = Some s2 \<and>
           settled s2 0 = Some (VTree 0) \<and> tree s2 = Some 0 \<and> idleQueue s2 = [] \<and>
           trace s2 = trace s1 @
             [ParserParse ParseAsync
                \<lparr>timeout = r * 1000, reader_model = m, oldTree = None\<rparr> (Inr 0)])"
  proof
    assume "P (1 + length fs) (r * 1000) (retrieveTextAtPosition m) None = Completes"
    then have ok: "P (nParses s1) (r * 1000) (retrieveTextAtPosition m) None = Completes"
      by (simp add: s1(3) s0(3))
    from slice_completes [where P = P and r = r, OF s1(2) _ ok]
    obtain s2 where s2: "step P (Idle r) s1 = Some s2"
        "settled s2 0 = Some (VTree (nextTree s1))" "tree s2 = Some (nextTree s1)"
        "idleQueue s2 = []"
        "trace s2 = trace s1 @
           [ParserParse ParseAsync
              \<lparr>timeout = r * 1000, reader_model = m, oldTree = None\<rparr> (Inr (nextTree s1))]"
      by auto
    have "run P (Script [] # map (\<lambda>f. Idle (fst f)) fs @ [Idle r]) (new_TreeSitterTree m) =
            Some s2"
      using run_append [of P "Script [] # map (\<lambda>f. Idle (fst f)) fs" "[Idle r]"
                           "new_TreeSitterTree m"] r1 s2(1)
      by simp
    with s2 show "\<exists>s2. run P (Script [] # map (\<lambda>f. Idle (fst f)) fs @ [Idle r])
                  (new_TreeSitterTree m) = Some s2 \<and>
           settled s2 0 = Some (VTree 0) \<and> tree s2 = Some 0 \<and> idleQueue s2 = [] \<and>
           trace s2 = trace s1 @
             [ParserParse ParseAsync
                \<lparr>timeout = r * 1000, reader_model = m, oldTree = None\<rparr> (Inr 0)]"
      by (simp add: s1(4) s0(4))
  qed
  from fallback_pending [OF s1(2)] r1 s1(5) s0(5) last
  show "\<exists>s1. run P (Script [] # map (\<lambda>f. Idle (fst f)) fs) (new_TreeSitterTree m) = Some s1 \<and>
       settled s1 0 = None \<and>
       idleQueue s1 = [\<lparr>cb_textModel = m, cb_tree = None, cb_promise = 4 + length fs\<rparr>] \<and>
       trace s1 =
         [ParserParse TryParseSync
            \<lparr>timeout = 10000, reader_model = m, oldTree = None\<rparr> (Inl e0)] @
         map (failed_slice m None) fs \<and>
       (P (1 + length fs) (r * 1000) (retrieveTextAtPosition m) None = Completes \<longrightarrow>
        (\<exists>s2. run P (Script [] # map (\<lambda>f. Idle (fst f)) fs @ [Idle r])
                  (new_TreeSitterTree m) = Some s2 \<and>
           settled s2 0 = Some (VTree 0) \<and> tree s2 = Some 0 \<and> idleQueue s2 = [] \<and>
           trace s2 = trace s1 @
             [ParserParse ParseAsync
                \<lparr>timeout = r * 1000, reader_model = m, oldTree = None\<rparr> (Inr 0)]))"
    by (intro exI [of _ s1]) simp
qed

theorem fallback_retries_until_a_slice_completes_witness:
  "microtasks edited_engine = [] \<and> currentParseOperation edited_engine = None \<and>
   idleQueue edited_engine = [] \<and> tree edited_engine = Some 0 \<and> edits edited_engine \<noteq> [] \<and>
   raises_at [(1, TimeBudgetExceeded), (2, StructuralParseFailure), (3, TimeBudgetExceeded)]
     1 10000 (retrieveTextAtPosition ''a=12;'') (Some 0) = Raises TimeBudgetExceeded \<and>
   raises_at [(1, TimeBudgetExceeded), (2, StructuralParseFailure), (3, TimeBudgetExceeded)]
     2 (7 * 1000) (retrieveTextAtPosition ''a=12;'') (Some 0) = Raises StructuralParseFailure \<and>
   raises_at [(1, TimeBudgetExceeded), (2, StructuralParseFailure), (3, TimeBudgetExceeded)]
     3 (3 * 1000) (retrieveTextAtPosition ''a=12;'') (Some 0) = Raises TimeBudgetExceeded \<and>
   raises_at [(1, TimeBudgetExceeded), (2, StructuralParseFailure), (3, TimeBudgetExceeded)]
     4 (9 * 1000) (retrieveTextAtPosition ''a=12;'') (Some 0) = Completes \<and>
   (\<exists>s1. run (raises_at [(1, TimeBudgetExceeded), (2, StructuralParseFailure),
                           (3, TimeBudgetExceeded)])
            [Script [ParseTree True], Idle 7, Idle 3] edited_engine = Some s1 \<and>
      settled s1 3 = None \<and>
      idleQueue s1 = [\<lparr>cb_textModel = ''a=12;'', cb_tree = Some 0, cb_promise = 9\<rparr>]) \<and>
   (\<exists>s2. run (raises_at [(1, TimeBudgetExceeded), (2, StructuralParseFailure),
                           (3, TimeBudgetExceeded)])
            [Script [ParseTree True], Idle 7, Idle 3, Idle 9] edited_engine = Some s2 \<and>
      settled s2 3 = Some (VTree 1) \<and> tree s2 = Some 1 \<and> idleQueue s2 = [] \<and>
      trace s2 =
        [ParserParse TryParseSync
           \<lparr>timeout = 10000, reader_model = ''a=1;'', oldTree = None\<rparr> (Inr 0),
         TreeEdit 0 (mk_edit ''a=12;'' change_1_to_12),
         ParserParse TryParseSync
           \<lparr>timeout = 10000, reader_model = ''a=12;'', oldTree = Some 0\<rparr>
           (Inl TimeBudgetExceeded),
         ParserParse ParseAsync
           \<lparr>timeout = 7000, reader_model = ''a=12;'', oldTree = Some 0\<rparr>
           (Inl StructuralParseFailure),
         ParserParse ParseAsync
           \<lparr>timeout = 3000, reader_model = ''a=12;'', oldTree = Some 0\<rparr>
           (Inl TimeBudgetExceeded),
         ParserParse ParseAsync
           \<lparr>timeout = 9000, reader_model = ''a=12;'', oldTree = Some 0\<rparr> (Inr 1)]) \<and>
   raises_at [(0, StructuralParseFailure), (1, TimeBudgetExceeded)]
     0 10000 (retrieveTextAtPosition ''a=1;'') None = Raises StructuralParseFailure \<and>
   raises_at [(0, StructuralParseFailure), (1, TimeBudgetExceeded)]
     1 (7 * 1000) (retrieveTextAtPosition ''a=1;'') None = Raises TimeBudgetExceeded \<and>
   raises_at [(0, StructuralParseFailure), (1, TimeBudgetExceeded)]
     2 (9 * 1000) (retrieveTextAtPosition ''a=1;'') None = Completes \<and>
   (\<exists>s2. run (raises_at [(0, StructuralParseFailure), (1, TimeBudgetExceeded)])
            [Script [], Idle 7, Idle 9] (new_TreeSitterTree ''a=1;'') = Some s2 \<and>
      settled s2 0 = Some (VTree 0) \<and> tree s2 = Some 0 \<and> idleQueue s2 = [])"
proof -
  let ?P = "raises_at [(1, TimeBudgetExceeded), (2, StructuralParseFailure),
                       (3, TimeBudgetExceeded)]"
  let ?fs = "[(7, StructuralParseFailure), (3, TimeBudgetExceeded)] :: (int \<times> parse_error) list"
  let ?Q = "raises_at [(0, StructuralParseFailure), (1, TimeBudgetExceeded)]"
  let ?gs = "[(7, TimeBudgetExceeded)] :: (int \<times> parse_error) list"
  have q: "microtasks edited_engine = []" "currentParseOperation edited_engine = None"
    "tree edited_engine = Some 0" "edits edited_engine \<noteq> []"
    by (simp_all add: edited_engine_fields)
  have iq: "idleQueue edited_engine = []"
    by code_simp
  have p: "?P 1 10000 (retrieveTextAtPosition ''a=12;'') (Some 0) = Raises TimeBudgetExceeded"
    "?P 2 (7 * 1000) (retrieveTextAtPosition ''a=12;'') (Some 0) = Raises StructuralParseFailure"
    "?P 3 (3 * 1000) (retrieveTextAtPosition ''a=12;'') (Some 0) = Raises TimeBudgetExceeded"
    "?P 4 (9 * 1000) (retrieveTextAtPosition ''a=12;'') (Some 0) = Completes"
    by (simp_all add: raises_at_def)
  have c: "?Q 0 10000 (retrieveTextAtPosition ''a=1;'') None = Raises StructuralParseFailure"
    "?Q 1 (7 * 1000) (retrieveTextAtPosition ''a=1;'') None = Raises TimeBudgetExceeded"
    "?Q 2 (9 * 1000) (retrieveTextAtPosition ''a=1;'') None = Completes"
    by (simp_all add: raises_at_def)
  have hyp1: "microtasks edited_engine = [] \<and> currentParseOperation edited_engine = None \<and>
    idleQueue edited_engine = [] \<and> tree edited_engine = Some 0 \<and> edits edited_engine \<noteq> [] \<and>
    ?P (nParses edited_engine) (if True then 10000 else timeoutMicros edited_engine)
      (retrieveTextAtPosition (model edited_engine)) (Some 0) = Raises TimeBudgetExceeded \<and>
    (\<forall>i<length ?fs. ?P (nParses edited_engine + 1 + i) (fst (?fs ! i) * 1000)
       (retrieveTextAtPosition (model edited_engine)) (Some 0) = Raises (snd (?fs ! i)))"
    using q iq p by (simp add: edited_engine_fields less_Suc_eq eval_nat_numeral)
  have hyp2: "?Q 0 10000 (retrieveTextAtPosition ''a=1;'') None = Raises StructuralParseFailure \<and>
    (\<forall>i<length ?gs. ?Q (1 + i) (fst (?gs ! i) * 1000)
       (retrieveTextAtPosition ''a=1;'') None = Raises (snd (?gs ! i)))"
    using c by simp
  note one = fallback_retries_until_a_slice_completes
               [of edited_engine 0 ?P True TimeBudgetExceeded ?fs 9 "''a=1;''"]
  note two = fallback_retries_until_a_slice_completes
               [of edited_engine 0 ?Q True StructuralParseFailure ?gs 9 "''a=1;''"]
  from one hyp1 obtain s1 where s1:
    "run ?P (Script [ParseTree True] # map (\<lambda>f. Idle (fst f)) ?fs) edited_engine = Some s1"
    "settled s1 (nextPromise edited_engine) = None"
    "idleQueue s1 =
       [\<lparr>cb_textModel = model edited_engine, cb_tree = Some 0,
         cb_promise = nextPromise edited_engine + 4 + length ?fs\<rparr>]"
    "trace s1 = trace edited_engine @ map (TreeEdit 0) (edits edited_engine) @
         [ParserParse TryParseSync
            \<lparr>timeout = (if True then 10000 else timeoutMicros edited_engine),
             reader_model = model edited_engine, oldTree = Some 0\<rparr>
            (Inl TimeBudgetExceeded)] @
         map (failed_slice (model edited_engine) (Some 0)) ?fs"
    "?P (nParses edited_engine + 1 + length ?fs) (9 * 1000)
          (retrieveTextAtPosition (model edited_engine)) (Some 0) = Completes \<longrightarrow>
        (\<exists>s2. run ?P (Script [ParseTree True] # map (\<lambda>f. Idle (fst f)) ?fs @ [Idle 9])
                  edited_engine = Some s2 \<and>
           settled s2 (nextPromise edited_engine) = Some (VTree (nextTree edited_engine)) \<and>
           tree s2 = Some (nextTree edited_engine) \<and> idleQueue s2 = [] \<and>
           trace s2 = trace s1 @
             [ParserParse ParseAsync
                \<lparr>timeout = 9 * 1000, reader_model = model edited_engine, oldTree = Some 0\<rparr>
                (Inr (nextTree edited_engine))])"
    by blast
  have a1: "\<exists>s1. run ?P [Script [ParseTree True], Idle 7, Idle 3] edited_engine = Some s1 \<and>
      settled s1 3 = None \<and>
      idleQueue s1 = [\<lparr>cb_textModel = ''a=12;'', cb_tree = Some 0, cb_promise = 9\<rparr>]"
    using s1(1,2,3) by (simp add: edited_engine_fields)
  have ok: "?P (nParses edited_engine + 1 + length ?fs) (9 * 1000)
          (retrieveTextAtPosition (model edited_engine)) (Some 0) = Completes"
    by (simp add: edited_engine_fields raises_at_def)
  from s1(5) ok obtain s2 where s2:
    "run ?P (Script [ParseTree True] # map (\<lambda>f. Idle (fst f)) ?fs @ [Idle 9])
       edited_engine = Some s2"
    "settled s2 (nextPromise edited_engine) = Some (VTree (nextTree edited_engine))"
    "tree s2 = Some (nextTree edited_engine)" "idleQueue s2 = []"
    "trace s2 = trace s1 @
       [ParserParse ParseAsync
          \<lparr>timeout = 9 * 1000, reader_model = model edited_engine, oldTree = Some 0\<rparr>
          (Inr (nextTree edited_engine))]"
    by blast
  have a2: "\<exists>s2. run ?P [Script [ParseTree True], Idle 7, Idle 3, Idle 9] edited_engine =
                   Some s2 \<and>
      settled s2 3 = Some (VTree 1) \<and> tree s2 = Some 1 \<and> idleQueue s2 = [] \<and>
      trace s2 =
        [ParserParse TryParseSync
           \<lparr>timeout = 10000, reader_model = ''a=1;'', oldTree = None\<rparr> (Inr 0),
         TreeEdit 0 (mk_edit ''a=12;'' change_1_to_12),
         ParserParse TryParseSync
           \<lparr>timeout = 10000, reader_model = ''a=12;'', oldTree = Some 0\<rparr>
           (Inl TimeBudgetExceeded),
         ParserParse ParseAsync
           \<lparr>timeout = 7000, reader_model = ''a=12;'', oldTree = Some 0\<rparr>
           (Inl StructuralParseFailure),
         ParserParse ParseAsync
           \<lparr>timeout = 3000, reader_model = ''a=12;'', oldTree = Some 0\<rparr>
           (Inl TimeBudgetExceeded),
         ParserParse ParseAsync
           \<lparr>timeout = 9000, reader_model = ''a=12;'', oldTree = Some 0\<rparr> (Inr 1)]"
    using s2 s1(4) by (simp add: edited_engine_fields failed_slice_def)
  have ok2: "?Q (1 + length ?gs) (9 * 1000) (retrieveTextAtPosition ''a=1;'') None = Completes"
    by (simp add: raises_at_def)
  from two hyp2 ok2 have a3:
    "\<exists>s2. run ?Q (Script [] # map (\<lambda>f. Idle (fst f)) ?gs @ [Idle 9])
              (new_TreeSitterTree ''a=1;'') = Some s2 \<and>
      settled s2 0 = Some (VTree 0) \<and> tree s2 = Some 0 \<and> idleQueue s2 = []"
    by blast
  have ev: "Script [] # map (\<lambda>f. Idle (fst f)) ?gs @ [Idle 9] = [Script [], Idle 7, Idle 9]"
    by simp
  from a3 have a3': "\<exists>s2. run ?Q [Script [], Idle 7, Idle 9] (new_TreeSitterTree ''a=1;'') = Some s2 \<and>
      settled s2 0 = Some (VTree 0) \<and> tree s2 = Some 0 \<and> idleQueue s2 = []"
    unfolding ev .
  from q iq p c a1 a2 a3' show ?thesis
    by simp
qed

section \<open>The calls on parser and trees only grow\<close>





















section \<open>Snapshot isolation\<close>









end
